theory Spec2Isabelle
  imports Complex_Main
begin

section \<open>Common data: numbers, hover results, canvas operations\<close>

text \<open>
  The annotation plugins are TypeScript. A JavaScript \<open>number\<close> is modelled as a
  \<^typ>\<open>real\<close>, a nullable coordinate (\<open>Coordinate | null\<close>) as \<^typ>\<open>real option\<close>, a
  renderer's cached snapshot (\<open>_data: ... | null\<close>) as an option of the snapshot record.
  \<open>Math.round\<close> rounds half up.
\<close>

definition Math_round :: "real \<Rightarrow> real" where
  "Math_round v = of_int \<lfloor>v + 1 / 2\<rfloor>"

text \<open>
  A JavaScript number is an IEEE 754 double, and every arithmetic operation returns its
  exact result rounded to a double. The extension of a trend line and the batching of the
  background regions compare such results with each other, so their functions take the
  rounding as a first parameter \<open>fl\<close> and apply it to the result of every operation and
  to every decimal literal, in the order in which the source evaluates them
  (\<open>Math.sqrt\<close> is rounded the same way; negation, \<open>Math.abs\<close>, \<open>Math.round\<close> and the
  comparisons are exact on doubles). The model has no \<open>Infinity\<close> and no \<open>NaN\<close>: with
  \<open>fl\<close> the rounding to the nearest double it is the code's arithmetic as long as no
  operation overflows or divides by zero, and what is proved for every \<open>fl\<close> holds of
  that arithmetic. \<open>exact\<close> is the rounding that changes nothing: it agrees with the double
  arithmetic wherever every intermediate result is a double, as for the small integers,
  halves and quarters of the examples.
\<close>

definition exact :: "real \<Rightarrow> real" where
  "exact v = v"

text \<open>\<open>LineStyle\<close> is declared in \<open>renderers/draw-line\<close>; its five members are the
  stroke styles of the options.\<close>

datatype LineStyle = Solid | Dotted | Dashed | LargeDashed | SparseDotted

record PrimitiveHoveredItem =
  cursorStyle :: string
  externalId :: string
  zOrder :: string

definition HIT_TEST_TOLERANCE :: real where
  "HIT_TEST_TOLERANCE = 6"

definition ANCHOR_HIT_RADIUS :: real where
  "ANCHOR_HIT_RADIUS = 8"

text \<open>
  A renderer draws through a \<open>CanvasRenderingContext2D\<close>. A draw call is modelled by the
  list of context operations it issues, in order. \<open>setLineStyle\<close> comes from
  \<open>renderers/draw-line\<close> and is kept as one operation. The scope gives the two pixel
  ratios; the width that \<open>ctx.measureText\<close> reports for a text under a font, and
  JavaScript's conversions of a number to a string (template literals, \<open>toFixed(2)\<close>),
  are parameters of the scope.
\<close>

datatype CanvasOp =
    Save
  | Restore
  | SetLineWidth real
  | SetStrokeStyle string
  | SetFillStyle string
  | SetLineStyle LineStyle
  | SetFont string
  | SetTextBaseline string
  | SetTextAlign string
  | BeginPath
  | MoveTo real real
  | LineTo real real
  | Arc real real real real real
  | RoundRect real real real real real
  | Stroke
  | Fill
  | FillRect real real real real
  | FillText string real real

record BitmapCoordinatesRenderingScope =
  horizontalPixelRatio :: real
  verticalPixelRatio :: real
  measureTextWidth :: "string \<Rightarrow> string \<Rightarrow> real"
  numberToString :: "real \<Rightarrow> string"
  toFixed2 :: "real \<Rightarrow> string"

text \<open>\<open>_drawAnchorPoint\<close>: every renderer class carries the same private copy.\<close>

definition drawAnchorPoint :: "real \<Rightarrow> real \<Rightarrow> string \<Rightarrow> real \<Rightarrow> CanvasOp list" where
  "drawAnchorPoint x y color pixelRatio =
     (let radius = 5 * pixelRatio;
          borderWidth = 2 * pixelRatio
      in [BeginPath, Arc x y radius 0 (2 * pi), SetStrokeStyle color, SetLineWidth borderWidth,
          Stroke,
          BeginPath, Arc x y (radius - borderWidth / 2) 0 (2 * pi),
          SetFillStyle ''rgba(0, 0, 0, 0.6)'', Fill])"

section \<open>Horizontal line renderer\<close>

record HorizontalLineRendererData =
  hl_y :: "real option"
  hl_lineColor :: string
  hl_lineWidth :: real
  hl_lineStyle :: LineStyle
  hl_externalId :: string
  hl_chartWidth :: real
  hl_selected :: bool
  hl_anchorPointColor :: string
  hl_anchorOffsetFromRight :: real

text \<open>\<open>_hitTestAnchorPoint\<close> of the horizontal-line and vertical-line renderers.\<close>

definition hitTestAnchorPoint ::
  "real \<Rightarrow> real \<Rightarrow> real \<Rightarrow> real \<Rightarrow> string \<Rightarrow> PrimitiveHoveredItem option" where
  "hitTestAnchorPoint x y anchorX anchorY extId =
     (let dist = sqrt ((x - anchorX) * (x - anchorX) + (y - anchorY) * (y - anchorY))
      in if dist \<le> ANCHOR_HIT_RADIUS
         then Some \<lparr>cursorStyle = ''grab'', externalId = extId @ '':anchor:0'', zOrder = ''normal''\<rparr>
         else None)"

definition HorizontalLineRenderer_hitTest ::
  "HorizontalLineRendererData option \<Rightarrow> real \<Rightarrow> real \<Rightarrow> PrimitiveHoveredItem option" where
  "HorizontalLineRenderer_hitTest data x y =
     (case data of
        None \<Rightarrow> None
      | Some d \<Rightarrow>
          (case hl_y d of
             None \<Rightarrow> None
           | Some lineY \<Rightarrow>
               (case (if hl_selected d
                      then hitTestAnchorPoint x y (hl_chartWidth d - hl_anchorOffsetFromRight d)
                             lineY (hl_externalId d)
                      else None) of
                  Some anchorResult \<Rightarrow> Some anchorResult
                | None \<Rightarrow>
                    (let distance = \<bar>y - lineY\<bar>
                     in if distance \<le> HIT_TEST_TOLERANCE
                        then Some \<lparr>cursorStyle = ''pointer'', externalId = hl_externalId d,
                                   zOrder = ''normal''\<rparr>
                        else None))))"


section \<open>Vertical line renderer\<close>

record VerticalLineRendererData =
  vl_x :: "real option"
  vl_timeLabel :: string
  vl_lineColor :: string
  vl_lineWidth :: real
  vl_lineStyle :: LineStyle
  vl_showTimeLabel :: bool
  vl_labelBackgroundColor :: string
  vl_labelTextColor :: string
  vl_externalId :: string
  vl_chartWidth :: real
  vl_chartHeight :: real
  vl_selected :: bool
  vl_anchorPointColor :: string
  vl_anchorOffsetFromBottom :: real


definition VerticalLineRenderer_hitTest ::
  "VerticalLineRendererData option \<Rightarrow> real \<Rightarrow> real \<Rightarrow> PrimitiveHoveredItem option" where
  "VerticalLineRenderer_hitTest data x y =
     (case data of
        None \<Rightarrow> None
      | Some d \<Rightarrow>
          (case vl_x d of
             None \<Rightarrow> None
           | Some lineX \<Rightarrow>
               (case (if vl_selected d
                      then hitTestAnchorPoint x y lineX
                             (vl_chartHeight d - vl_anchorOffsetFromBottom d) (vl_externalId d)
                      else None) of
                  Some anchorResult \<Rightarrow> Some anchorResult
                | None \<Rightarrow>
                    (let distance = \<bar>x - lineX\<bar>
                     in if distance \<le> HIT_TEST_TOLERANCE
                        then Some \<lparr>cursorStyle = ''pointer'', externalId = vl_externalId d,
                                   zOrder = ''normal''\<rparr>
                        else None))))"



text \<open>
  A second revision of the vertical-line renderer is in the repository (its snapshot has
  no anchor fields, and the primitive of the vertical line builds exactly that snapshot):
  its hit test looks at \<open>x\<close> only and its draw call paints no anchor handle.
\<close>

record VerticalLineRendererDataV0 =
  vl0_x :: "real option"
  vl0_timeLabel :: string
  vl0_lineColor :: string
  vl0_lineWidth :: real
  vl0_lineStyle :: LineStyle
  vl0_showTimeLabel :: bool
  vl0_labelBackgroundColor :: string
  vl0_labelTextColor :: string
  vl0_externalId :: string
  vl0_chartWidth :: real
  vl0_chartHeight :: real
  vl0_selected :: bool

definition VerticalLineRendererV0_hitTest ::
  "VerticalLineRendererDataV0 option \<Rightarrow> real \<Rightarrow> real \<Rightarrow> PrimitiveHoveredItem option" where
  "VerticalLineRendererV0_hitTest data x y =
     (case data of
        None \<Rightarrow> None
      | Some d \<Rightarrow>
          (case vl0_x d of
             None \<Rightarrow> None
           | Some lineX \<Rightarrow>
               (let distance = \<bar>x - lineX\<bar>
                in if distance \<le> HIT_TEST_TOLERANCE
                   then Some \<lparr>cursorStyle = ''pointer'', externalId = vl0_externalId d,
                              zOrder = ''normal''\<rparr>
                   else None)))"


section \<open>Segments: trend line and horizontal ray renderers\<close>

text \<open>The renderer points of the trend line, the rectangle, the horizontal ray and the
  position box have the same shape: two nullable coordinates.\<close>

record RendererPoint =
  pt_x :: "real option"
  pt_y :: "real option"

text \<open>\<open>distanceToLineSegment\<close> (the same function in the trend-line and the
  horizontal-ray renderer).\<close>

definition distanceToLineSegment :: "real \<Rightarrow> real \<Rightarrow> real \<Rightarrow> real \<Rightarrow> real \<Rightarrow> real \<Rightarrow> real" where
  "distanceToLineSegment px py x1 y1 x2 y2 =
     (let dx = x2 - x1;
          dy = y2 - y1;
          lengthSquared = dx * dx + dy * dy
      in if lengthSquared = 0
         then sqrt ((px - x1) * (px - x1) + (py - y1) * (py - y1))
         else (let t0 = ((px - x1) * dx + (py - y1) * dy) / lengthSquared;
                   t = max 0 (min 1 t0);
                   closestX = x1 + t * dx;
                   closestY = y1 + t * dy
               in sqrt ((px - closestX) * (px - closestX) + (py - closestY) * (py - closestY))))"

record TrendLineRendererData =
  tl_p1 :: RendererPoint
  tl_p2 :: RendererPoint
  tl_extendedStart :: RendererPoint
  tl_extendedEnd :: RendererPoint
  tl_text1 :: string
  tl_text2 :: string
  tl_lineColor :: string
  tl_lineWidth :: real
  tl_lineStyle :: LineStyle
  tl_showLabels :: bool
  tl_labelBackgroundColor :: string
  tl_labelTextColor :: string
  tl_extendToEdges :: bool
  tl_externalId :: string
  tl_chartWidth :: real
  tl_chartHeight :: real
  tl_selected :: bool
  tl_anchorPointColor :: string

text \<open>The four coordinates the trend-line renderer works on: the extended segment when
  \<open>extendToEdges\<close> is set, the anchors otherwise; \<open>None\<close> when one of them is null.\<close>

definition TrendLine_segment :: "TrendLineRendererData \<Rightarrow> (real \<times> real \<times> real \<times> real) option" where
  "TrendLine_segment d =
     (let a = (if tl_extendToEdges d then tl_extendedStart d else tl_p1 d);
          b = (if tl_extendToEdges d then tl_extendedEnd d else tl_p2 d)
      in case (pt_x a, pt_y a, pt_x b, pt_y b) of
           (Some lineX1, Some lineY1, Some lineX2, Some lineY2) \<Rightarrow>
             Some (lineX1, lineY1, lineX2, lineY2)
         | _ \<Rightarrow> None)"

definition TrendLineRenderer_hitTest ::
  "TrendLineRendererData option \<Rightarrow> real \<Rightarrow> real \<Rightarrow> PrimitiveHoveredItem option" where
  "TrendLineRenderer_hitTest data x y =
     (case data of
        None \<Rightarrow> None
      | Some d \<Rightarrow>
          (case TrendLine_segment d of
             None \<Rightarrow> None
           | Some (lineX1, lineY1, lineX2, lineY2) \<Rightarrow>
               (let distance = distanceToLineSegment x y lineX1 lineY1 lineX2 lineY2
                in if distance \<le> HIT_TEST_TOLERANCE
                   then Some \<lparr>cursorStyle = ''pointer'', externalId = tl_externalId d,
                              zOrder = ''normal''\<rparr>
                   else None)))"



record HorizontalRayRendererData =
  hr_anchor :: RendererPoint
  hr_endPoint :: RendererPoint
  hr_priceLabel :: string
  hr_lineColor :: string
  hr_lineWidth :: real
  hr_lineStyle :: LineStyle
  hr_showPriceLabel :: bool
  hr_labelBackgroundColor :: string
  hr_labelTextColor :: string
  hr_externalId :: string
  hr_chartWidth :: real
  hr_chartHeight :: real
  hr_selected :: bool
  hr_anchorPointColor :: string

definition HorizontalRayRenderer_hitTest ::
  "HorizontalRayRendererData option \<Rightarrow> real \<Rightarrow> real \<Rightarrow> PrimitiveHoveredItem option" where
  "HorizontalRayRenderer_hitTest data x y =
     (case data of
        None \<Rightarrow> None
      | Some d \<Rightarrow>
          (case (pt_x (hr_anchor d), pt_y (hr_anchor d), pt_x (hr_endPoint d), pt_y (hr_endPoint d)) of
             (Some ax, Some ay, Some ex, Some ey) \<Rightarrow>
               (let distance = distanceToLineSegment x y ax ay ex ey
                in if distance \<le> HIT_TEST_TOLERANCE
                   then Some \<lparr>cursorStyle = ''pointer'', externalId = hr_externalId d,
                              zOrder = ''normal''\<rparr>
                   else (let anchorDistance = sqrt ((x - ax) * (x - ax) + (y - ay) * (y - ay))
                         in if anchorDistance \<le> HIT_TEST_TOLERANCE
                            then Some \<lparr>cursorStyle = ''pointer'', externalId = hr_externalId d,
                                       zOrder = ''normal''\<rparr>
                            else None))
           | _ \<Rightarrow> None))"


section \<open>Rectangle renderer\<close>

datatype RectangleExtendMode = Mode_none | Mode_left | Mode_right | Mode_both

record RectangleRendererData =
  rc_p1 :: RendererPoint
  rc_p2 :: RendererPoint
  rc_drawLeft :: real
  rc_drawRight :: real
  rc_drawTop :: real
  rc_drawBottom :: real
  rc_lineColor :: string
  rc_lineWidth :: real
  rc_lineStyle :: LineStyle
  rc_backgroundColor :: string
  rc_labelText :: string
  rc_showLabel :: bool
  rc_labelBackgroundColor :: string
  rc_labelTextColor :: string
  rc_extendMode :: RectangleExtendMode
  rc_externalId :: string
  rc_chartWidth :: real
  rc_chartHeight :: real
  rc_selected :: bool
  rc_anchorPointColor :: string
  rc_showMiddleLine :: bool
  rc_middleLineColor :: string
  rc_middleLineStyle :: LineStyle
  rc_middleLineWidth :: real

definition isNearHorizontalLine :: "real \<Rightarrow> real \<Rightarrow> real \<Rightarrow> real \<Rightarrow> real \<Rightarrow> real \<Rightarrow> bool" where
  "isNearHorizontalLine px py x1 x2 y tolerance =
     (let minX = min x1 x2; maxX = max x1 x2
      in px \<ge> minX \<and> px \<le> maxX \<and> \<bar>py - y\<bar> \<le> tolerance)"

definition isNearVerticalLine :: "real \<Rightarrow> real \<Rightarrow> real \<Rightarrow> real \<Rightarrow> real \<Rightarrow> real \<Rightarrow> bool" where
  "isNearVerticalLine px py x y1 y2 tolerance =
     (let minY = min y1 y2; maxY = max y1 y2
      in py \<ge> minY \<and> py \<le> maxY \<and> \<bar>px - x\<bar> \<le> tolerance)"

definition Rectangle_hitTestAnchorPoints ::
  "real \<Rightarrow> real \<Rightarrow> RendererPoint \<Rightarrow> RendererPoint \<Rightarrow> string \<Rightarrow> PrimitiveHoveredItem option" where
  "Rectangle_hitTestAnchorPoints x y p1 p2 extId =
     (if (case (pt_x p1, pt_y p1) of
            (Some p1x, Some p1y) \<Rightarrow>
              sqrt ((x - p1x) * (x - p1x) + (y - p1y) * (y - p1y)) \<le> ANCHOR_HIT_RADIUS
          | _ \<Rightarrow> False)
      then Some \<lparr>cursorStyle = ''grab'', externalId = extId @ '':anchor:0'', zOrder = ''normal''\<rparr>
      else if (case (pt_x p2, pt_y p2) of
                 (Some p2x, Some p2y) \<Rightarrow>
                   sqrt ((x - p2x) * (x - p2x) + (y - p2y) * (y - p2y)) \<le> ANCHOR_HIT_RADIUS
               | _ \<Rightarrow> False)
      then Some \<lparr>cursorStyle = ''grab'', externalId = extId @ '':anchor:1'', zOrder = ''normal''\<rparr>
      else None)"

text \<open>The border and middle-line test that follows the anchor test.\<close>

definition Rectangle_hitTestBody :: "RectangleRendererData \<Rightarrow> real \<Rightarrow> real \<Rightarrow> PrimitiveHoveredItem option" where
  "Rectangle_hitTestBody d x y =
     (let showLeftBorder = (rc_extendMode d \<noteq> Mode_left \<and> rc_extendMode d \<noteq> Mode_both);
          showRightBorder = (rc_extendMode d \<noteq> Mode_right \<and> rc_extendMode d \<noteq> Mode_both);
          nearTop = isNearHorizontalLine x y (rc_drawLeft d) (rc_drawRight d) (rc_drawTop d)
                      HIT_TEST_TOLERANCE;
          nearBottom = isNearHorizontalLine x y (rc_drawLeft d) (rc_drawRight d) (rc_drawBottom d)
                         HIT_TEST_TOLERANCE;
          nearLeft = (showLeftBorder \<and>
                      isNearVerticalLine x y (rc_drawLeft d) (rc_drawTop d) (rc_drawBottom d)
                        HIT_TEST_TOLERANCE);
          nearRight = (showRightBorder \<and>
                       isNearVerticalLine x y (rc_drawRight d) (rc_drawTop d) (rc_drawBottom d)
                         HIT_TEST_TOLERANCE);
          middleY = (rc_drawTop d + rc_drawBottom d) / 2;
          nearMiddle = (rc_showMiddleLine d \<and>
                        isNearHorizontalLine x y (rc_drawLeft d) (rc_drawRight d) middleY
                          HIT_TEST_TOLERANCE)
      in if nearTop \<or> nearBottom \<or> nearLeft \<or> nearRight \<or> nearMiddle
         then Some \<lparr>cursorStyle = ''pointer'', externalId = rc_externalId d, zOrder = ''normal''\<rparr>
         else None)"

definition RectangleRenderer_hitTest ::
  "RectangleRendererData option \<Rightarrow> real \<Rightarrow> real \<Rightarrow> PrimitiveHoveredItem option" where
  "RectangleRenderer_hitTest data x y =
     (case data of
        None \<Rightarrow> None
      | Some d \<Rightarrow>
          (case (if rc_selected d
                 then Rectangle_hitTestAnchorPoints x y (rc_p1 d) (rc_p2 d) (rc_externalId d)
                 else None) of
             Some anchorResult \<Rightarrow> Some anchorResult
           | None \<Rightarrow> Rectangle_hitTestBody d x y))"




text \<open>
  A second revision of the rectangle renderer is in the repository, on the same snapshot:
  its hit test has no anchor test, and its draw call paints eight handles (four corners,
  four edge midpoints).
\<close>

definition RectangleRendererV0_hitTest ::
  "RectangleRendererData option \<Rightarrow> real \<Rightarrow> real \<Rightarrow> PrimitiveHoveredItem option" where
  "RectangleRendererV0_hitTest data x y =
     (case data of
        None \<Rightarrow> None
      | Some d \<Rightarrow> Rectangle_hitTestBody d x y)"


section \<open>Long/short position renderer\<close>

text \<open>
  \<open>PositionDirection\<close> is imported from the options module, whose revision in the
  repository does not declare it; its two values are the \<open>"long"\<close> and \<open>"short"\<close> of the
  renderer. The snapshot literal built by the primitive has no \<open>direction\<close> property, so
  the field is optional here: \<open>None\<close> is JavaScript's \<open>undefined\<close>, and the renderer's
  test \<open>direction === "long"\<close> fails for it.
\<close>

datatype PositionDirection = Long | Short

record LongPositionRendererData =
  lp_entry :: RendererPoint
  lp_targetY :: "real option"
  lp_stopY :: "real option"
  lp_rightX :: "real option"
  lp_entryPrice :: real
  lp_targetPrice :: real
  lp_stopPrice :: real
  lp_lineColor :: string
  lp_lineWidth :: real
  lp_lineStyle :: LineStyle
  lp_profitBackgroundColor :: string
  lp_riskBackgroundColor :: string
  lp_entryLineColor :: string
  lp_externalId :: string
  lp_chartWidth :: real
  lp_chartHeight :: real
  lp_selected :: bool
  lp_anchorPointColor :: string
  lp_labelBackgroundColor :: string
  lp_labelTextColor :: string
  lp_targetLabelBackgroundColor :: string
  lp_stopLabelBackgroundColor :: string
  lp_direction :: "PositionDirection option"

definition isInsideRect :: "real \<Rightarrow> real \<Rightarrow> real \<Rightarrow> real \<Rightarrow> real \<Rightarrow> real \<Rightarrow> bool" where
  "isInsideRect px py left right top' bottom =
     (px \<ge> left \<and> px \<le> right \<and> py \<ge> top' \<and> py \<le> bottom)"

definition LongPosition_hitTestAnchorPoints ::
  "real \<Rightarrow> real \<Rightarrow> real \<Rightarrow> real \<Rightarrow> real \<Rightarrow> real \<Rightarrow> real \<Rightarrow> string \<Rightarrow> PrimitiveHoveredItem option" where
  "LongPosition_hitTestAnchorPoints x y entryX entryY targetY stopY rightX extId =
     (let distToEntry = sqrt ((x - entryX) * (x - entryX) + (y - entryY) * (y - entryY));
          distToTarget = sqrt ((x - entryX) * (x - entryX) + (y - targetY) * (y - targetY));
          distToStop = sqrt ((x - entryX) * (x - entryX) + (y - stopY) * (y - stopY));
          distToWidth = sqrt ((x - rightX) * (x - rightX) + (y - entryY) * (y - entryY))
      in if distToEntry \<le> ANCHOR_HIT_RADIUS
         then Some \<lparr>cursorStyle = ''grab'', externalId = extId @ '':anchor:0'',
                    zOrder = ''normal''\<rparr>
         else if distToTarget \<le> ANCHOR_HIT_RADIUS
         then Some \<lparr>cursorStyle = ''ns-resize'', externalId = extId @ '':anchor:1'',
                    zOrder = ''normal''\<rparr>
         else if distToStop \<le> ANCHOR_HIT_RADIUS
         then Some \<lparr>cursorStyle = ''ns-resize'', externalId = extId @ '':anchor:2'',
                    zOrder = ''normal''\<rparr>
         else if distToWidth \<le> ANCHOR_HIT_RADIUS
         then Some \<lparr>cursorStyle = ''ew-resize'', externalId = extId @ '':anchor:3'',
                    zOrder = ''normal''\<rparr>
         else None)"

text \<open>The coordinates the position renderer requires: \<open>None\<close> when one is null.\<close>

definition LongPosition_coords :: "LongPositionRendererData \<Rightarrow> (real \<times> real \<times> real \<times> real \<times> real) option" where
  "LongPosition_coords d =
     (case (pt_x (lp_entry d), pt_y (lp_entry d), lp_targetY d, lp_stopY d, lp_rightX d) of
        (Some entryX, Some entryY, Some targetY, Some stopY, Some rightX) \<Rightarrow>
          Some (entryX, entryY, targetY, stopY, rightX)
      | _ \<Rightarrow> None)"

definition LongPositionRenderer_hitTest ::
  "LongPositionRendererData option \<Rightarrow> real \<Rightarrow> real \<Rightarrow> PrimitiveHoveredItem option" where
  "LongPositionRenderer_hitTest data x y =
     (case data of
        None \<Rightarrow> None
      | Some d \<Rightarrow>
          (case LongPosition_coords d of
             None \<Rightarrow> None
           | Some (entryX, entryY, targetY, stopY, rightX) \<Rightarrow>
               (let left = entryX;
                    right = rightX;
                    top' = min targetY (min entryY stopY);
                    bottom = max targetY (max entryY stopY)
                in case (if lp_selected d
                         then LongPosition_hitTestAnchorPoints x y entryX entryY targetY stopY rightX
                                (lp_externalId d)
                         else None) of
                     Some anchorResult \<Rightarrow> Some anchorResult
                   | None \<Rightarrow>
                       (let nearTop = isNearHorizontalLine x y left right top' HIT_TEST_TOLERANCE;
                            nearBottom = isNearHorizontalLine x y left right bottom HIT_TEST_TOLERANCE;
                            nearLeft = isNearVerticalLine x y left top' bottom HIT_TEST_TOLERANCE;
                            nearRight = isNearVerticalLine x y right top' bottom HIT_TEST_TOLERANCE;
                            nearEntry = isNearHorizontalLine x y left right entryY HIT_TEST_TOLERANCE;
                            isInside = isInsideRect x y left right top' bottom
                        in if nearTop \<or> nearBottom \<or> nearLeft \<or> nearRight \<or> nearEntry \<or> isInside
                           then Some \<lparr>cursorStyle = ''pointer'', externalId = lp_externalId d,
                                      zOrder = ''normal''\<rparr>
                           else None))))"

text \<open>
  The block of the draw call that computes the deltas and the risk/reward ratio. The two
  percentages divide by the entry price without a guard; they only enter the label texts,
  where a division by zero prints JavaScript's \<open>Infinity\<close>, \<open>-Infinity\<close> or \<open>NaN\<close>.
\<close>

definition Position_targetDelta :: "PositionDirection option \<Rightarrow> real \<Rightarrow> real \<Rightarrow> real" where
  "Position_targetDelta direction entryPrice targetPrice =
     (if direction = Some Long then targetPrice - entryPrice else entryPrice - targetPrice)"

definition Position_stopDelta :: "PositionDirection option \<Rightarrow> real \<Rightarrow> real \<Rightarrow> real" where
  "Position_stopDelta direction entryPrice stopPrice =
     (if direction = Some Long then entryPrice - stopPrice else stopPrice - entryPrice)"

definition Position_pct :: "real \<Rightarrow> real \<Rightarrow> real option" where
  "Position_pct delta entryPrice =
     (if entryPrice = 0 then None else Some ((delta / entryPrice) * 100))"

definition Position_pctText :: "BitmapCoordinatesRenderingScope \<Rightarrow> real \<Rightarrow> real \<Rightarrow> string" where
  "Position_pctText scope delta entryPrice =
     (case Position_pct delta entryPrice of
        Some pct \<Rightarrow> toFixed2 scope pct
      | None \<Rightarrow> (if delta > 0 then ''Infinity'' else if delta < 0 then ''-Infinity'' else ''NaN''))"

definition Position_riskRewardRatio :: "real \<Rightarrow> real \<Rightarrow> real" where
  "Position_riskRewardRatio targetDelta stopDelta =
     (if stopDelta \<noteq> 0 then targetDelta / stopDelta else 0)"

datatype VerticalAlign = Align_top | Align_middle | Align_bottom

definition LongPosition_drawLabel ::
  "BitmapCoordinatesRenderingScope \<Rightarrow> string \<Rightarrow> real \<Rightarrow> real \<Rightarrow> string \<Rightarrow> string \<Rightarrow> VerticalAlign
     \<Rightarrow> CanvasOp list" where
  "LongPosition_drawLabel scope text x y backgroundColor textColor verticalAlign =
     (let padding = 4 * horizontalPixelRatio scope;
          fontSize = 11 * verticalPixelRatio scope;
          font = numberToString scope fontSize @ ''px Arial'';
          textWidth = measureTextWidth scope font text;
          textHeight = fontSize;
          boxWidth = textWidth + padding * 2;
          boxHeight = textHeight + padding;
          boxX = x - boxWidth / 2;
          boxY = (case verticalAlign of
                    Align_top \<Rightarrow> y
                  | Align_bottom \<Rightarrow> y - boxHeight
                  | Align_middle \<Rightarrow> y - boxHeight / 2)
      in [SetFont font,
          SetFillStyle backgroundColor, BeginPath, RoundRect boxX boxY boxWidth boxHeight 3, Fill,
          SetFillStyle textColor, SetTextBaseline ''middle'', SetTextAlign ''center'',
          FillText text x (boxY + boxHeight / 2)])"

definition LongPositionRenderer_drawImpl ::
  "LongPositionRendererData option \<Rightarrow> BitmapCoordinatesRenderingScope \<Rightarrow> CanvasOp list" where
  "LongPositionRenderer_drawImpl data scope =
     (case data of
        None \<Rightarrow> []
      | Some d \<Rightarrow>
          (case LongPosition_coords d of
             None \<Rightarrow> []
           | Some (entryX, entryY, targetY, stopY, rightX) \<Rightarrow>
               (let hpr = horizontalPixelRatio scope;
                    vpr = verticalPixelRatio scope;
                    leftScaled = Math_round (entryX * hpr);
                    rightScaled = Math_round (rightX * hpr);
                    entryYScaled = Math_round (entryY * vpr);
                    targetYScaled = Math_round (targetY * vpr);
                    stopYScaled = Math_round (stopY * vpr);
                    rectWidth = rightScaled - leftScaled;
                    profitTop = min targetYScaled entryYScaled;
                    profitBottom = max targetYScaled entryYScaled;
                    profitHeight = profitBottom - profitTop;
                    riskTop = min entryYScaled stopYScaled;
                    riskBottom = max entryYScaled stopYScaled;
                    riskHeight = riskBottom - riskTop;
                    direction = lp_direction d;
                    targetDelta = Position_targetDelta direction (lp_entryPrice d) (lp_targetPrice d);
                    stopDelta = Position_stopDelta direction (lp_entryPrice d) (lp_stopPrice d);
                    riskRewardRatio = Position_riskRewardRatio targetDelta stopDelta;
                    targetText = ''Target: '' @ toFixed2 scope targetDelta @ '' (''
                                 @ Position_pctText scope targetDelta (lp_entryPrice d) @ ''%)'';
                    stopText = ''Stop: '' @ toFixed2 scope stopDelta @ '' (''
                               @ Position_pctText scope stopDelta (lp_entryPrice d) @ ''%)'';
                    rrText = ''Risk/Reward: '' @ toFixed2 scope riskRewardRatio;
                    midX = leftScaled + rectWidth / 2
                in [Save, SetFillStyle (lp_profitBackgroundColor d),
                    FillRect leftScaled profitTop rectWidth profitHeight, Restore,
                    Save, SetFillStyle (lp_riskBackgroundColor d),
                    FillRect leftScaled riskTop rectWidth riskHeight, Restore,
                    Save, SetLineWidth (lp_lineWidth d * hpr), SetStrokeStyle (lp_entryLineColor d),
                    SetLineStyle Dashed,
                    BeginPath, MoveTo leftScaled entryYScaled, LineTo rightScaled entryYScaled,
                    Stroke, Restore]
                   @ (if direction = Some Long
                      then LongPosition_drawLabel scope targetText midX (targetYScaled - 8 * vpr)
                             (lp_targetLabelBackgroundColor d) (lp_labelTextColor d) Align_bottom
                           @ LongPosition_drawLabel scope stopText midX (stopYScaled + 8 * vpr)
                               (lp_stopLabelBackgroundColor d) (lp_labelTextColor d) Align_top
                      else LongPosition_drawLabel scope targetText midX (targetYScaled + 8 * vpr)
                             (lp_targetLabelBackgroundColor d) (lp_labelTextColor d) Align_top
                           @ LongPosition_drawLabel scope stopText midX (stopYScaled - 8 * vpr)
                               (lp_stopLabelBackgroundColor d) (lp_labelTextColor d) Align_bottom)
                   @ LongPosition_drawLabel scope rrText midX entryYScaled ''#ffffff'' ''#000000''
                       Align_middle
                   @ (if lp_selected d
                      then drawAnchorPoint leftScaled entryYScaled (lp_anchorPointColor d) hpr
                           @ drawAnchorPoint leftScaled targetYScaled (lp_anchorPointColor d) hpr
                           @ drawAnchorPoint leftScaled stopYScaled (lp_anchorPointColor d) hpr
                           @ drawAnchorPoint rightScaled entryYScaled (lp_anchorPointColor d) hpr
                      else []))))"

section \<open>Background regions renderer\<close>

record BackgroundRegionRendererData =
  br_x :: real
  br_color :: string
  br_barWidth :: real

record BackgroundRegionsRendererData =
  brs_regions :: "BackgroundRegionRendererData list"
  brs_chartHeight :: real


text \<open>The three local variables of the batching loop, and its closure \<open>drawBatch\<close>.\<close>

record Batch =
  currentColor :: "string option"
  batchStartX :: "real option"
  batchEndX :: "real option"

definition drawBatch :: "(real \<Rightarrow> real) \<Rightarrow> real \<Rightarrow> Batch \<Rightarrow> CanvasOp list" where
  "drawBatch fl chartHeightScaled b =
     (case (currentColor b, batchStartX b, batchEndX b) of
        (Some c, Some s, Some e) \<Rightarrow> [SetFillStyle c, FillRect s 0 (fl (e - s)) chartHeightScaled]
      | _ \<Rightarrow> [])"

text \<open>The rounded edges of a region: \<open>leftX\<close> and \<open>rightX\<close> of the loop body.\<close>

definition region_leftX :: "(real \<Rightarrow> real) \<Rightarrow> real \<Rightarrow> BackgroundRegionRendererData \<Rightarrow> real" where
  "region_leftX fl hpr region =
     (let halfBarWidth = fl (fl (br_barWidth region * hpr) / 2)
      in Math_round (fl (fl (br_x region * hpr) - halfBarWidth)))"

definition region_rightX :: "(real \<Rightarrow> real) \<Rightarrow> real \<Rightarrow> BackgroundRegionRendererData \<Rightarrow> real" where
  "region_rightX fl hpr region =
     (let halfBarWidth = fl (fl (br_barWidth region * hpr) / 2)
      in Math_round (fl (fl (br_x region * hpr) + halfBarWidth)))"

definition isAdjacent ::
  "(real \<Rightarrow> real) \<Rightarrow> real \<Rightarrow> Batch \<Rightarrow> BackgroundRegionRendererData \<Rightarrow> bool" where
  "isAdjacent fl hpr b region =
     (let barWidthScaled = fl (br_barWidth region * hpr)
      in case batchEndX b of
           None \<Rightarrow> False
         | Some e \<Rightarrow> region_leftX fl hpr region \<le> fl (e + fl (barWidthScaled * fl (1 / 2))))"

text \<open>The \<open>for\<close> loop over the regions, followed by the final \<open>drawBatch()\<close>.\<close>

fun batchRegions ::
  "(real \<Rightarrow> real) \<Rightarrow> real \<Rightarrow> real \<Rightarrow> Batch \<Rightarrow> BackgroundRegionRendererData list \<Rightarrow> CanvasOp list" where
  "batchRegions fl hpr chartHeightScaled b [] = drawBatch fl chartHeightScaled b"
| "batchRegions fl hpr chartHeightScaled b (region # rest) =
     (if Some (br_color region) = currentColor b \<and> isAdjacent fl hpr b region
      then batchRegions fl hpr chartHeightScaled
             (b\<lparr>batchEndX := Some (region_rightX fl hpr region)\<rparr>) rest
      else drawBatch fl chartHeightScaled b
           @ batchRegions fl hpr chartHeightScaled
               \<lparr>currentColor = Some (br_color region),
                batchStartX = Some (region_leftX fl hpr region),
                batchEndX = Some (region_rightX fl hpr region)\<rparr> rest)"

definition BackgroundRegionsRenderer_drawImpl ::
  "(real \<Rightarrow> real) \<Rightarrow> BackgroundRegionsRendererData option \<Rightarrow> BitmapCoordinatesRenderingScope
     \<Rightarrow> CanvasOp list" where
  "BackgroundRegionsRenderer_drawImpl fl data scope =
     (case data of
        None \<Rightarrow> []
      | Some d \<Rightarrow>
          (if length (brs_regions d) = 0 then []
           else (let chartHeightScaled =
                       Math_round (fl (brs_chartHeight d * verticalPixelRatio scope))
                 in batchRegions fl (horizontalPixelRatio scope) chartHeightScaled
                      \<lparr>currentColor = None, batchStartX = None, batchEndX = None\<rparr>
                      (brs_regions d))))"

section \<open>The host and the state shared by every primitive\<close>

text \<open>
  What a primitive consumes from the host: of the chart only its time scale
  (\<open>chart.timeScale()\<close>), of the series the price mapping, the pane height and the price
  formatter. A time is the host's scale item, a type parameter. Each mapping returns
  \<open>None\<close> for the host's \<open>null\<close>.
\<close>

record 't TimeScaleApi =
  timeToCoordinate :: "'t \<Rightarrow> real option"
  coordinateToLogical :: "real \<Rightarrow> real option"
  logicalToCoordinate :: "real \<Rightarrow> real option"
  timeScaleWidth :: real
  barSpacing :: real

record SeriesApi =
  priceToCoordinate :: "real \<Rightarrow> real option"
  paneHeight :: real
  priceFormat :: "real \<Rightarrow> string"

record 't SeriesAttachedParameter =
  param_chart :: "'t TimeScaleApi"
  param_series :: SeriesApi

text \<open>
  The seven primitive classes repeat the same fields and the same \<open>attached\<close>,
  \<open>detached\<close> and \<open>requestUpdate\<close>; they are modelled once, over the type of the anchors
  (\<open>'a\<close>), of the options (\<open>'o\<close>) and of the renderer snapshot (\<open>'s\<close>). The pane view
  owns one renderer and forwards \<open>update\<close> to its \<open>setData\<close>, so the pane view is the
  renderer's cached snapshot \<open>p_rendererData\<close>. The host's update callback is opaque:
  the state records whether one is stored and how often it has been called.
\<close>

record ('t, 'a, 'o, 's) Primitive =
  p_chart :: "'t TimeScaleApi option"
  p_series :: "SeriesApi option"
  p_requestUpdate :: bool
  p_updateRequests :: nat
  p_anchors :: 'a
  p_options :: 'o
  p_rendererData :: "'s option"

definition requestUpdate :: "('t, 'a, 'o, 's) Primitive \<Rightarrow> ('t, 'a, 'o, 's) Primitive" where
  "requestUpdate st =
     (if p_requestUpdate st then st\<lparr>p_updateRequests := Suc (p_updateRequests st)\<rparr> else st)"

definition attached ::
  "'t SeriesAttachedParameter \<Rightarrow> ('t, 'a, 'o, 's) Primitive \<Rightarrow> ('t, 'a, 'o, 's) Primitive" where
  "attached param st =
     requestUpdate (st\<lparr>p_chart := Some (param_chart param),
                        p_series := Some (param_series param),
                        p_requestUpdate := True\<rparr>)"

definition detached :: "('t, 'a, 'o, 's) Primitive \<Rightarrow> ('t, 'a, 'o, 's) Primitive" where
  "detached st = st\<lparr>p_chart := None, p_series := None, p_requestUpdate := False\<rparr>"

text \<open>\<open>updateAllViews\<close> of every primitive but the background regions: the snapshot is
  replaced only when \<open>_calculateRendererData\<close> returns one.\<close>

definition updateAllViews ::
  "(('t, 'a, 'o, 's) Primitive \<Rightarrow> 's option) \<Rightarrow> ('t, 'a, 'o, 's) Primitive
     \<Rightarrow> ('t, 'a, 'o, 's) Primitive" where
  "updateAllViews calculateRendererData st =
     (case calculateRendererData st of
        None \<Rightarrow> st
      | Some data \<Rightarrow> st\<lparr>p_rendererData := Some data\<rparr>)"

record 't AnchorPoint =
  time :: 't
  price :: real

record AutoscaleInfo =
  minValue :: real
  maxValue :: real

text \<open>\<open>_getPointLogicalIndex\<close> (trend line, rectangle), \<open>_getAnchorLogicalIndex\<close>
  (horizontal ray) and \<open>_getEntryLogicalIndex\<close> (position) are the same function of a
  time.\<close>

definition getLogicalIndex :: "('t, 'a, 'o, 's) Primitive \<Rightarrow> 't \<Rightarrow> real option" where
  "getLogicalIndex st t =
     (case p_chart st of
        None \<Rightarrow> None
      | Some timeScale \<Rightarrow>
          (case timeToCoordinate timeScale t of
             None \<Rightarrow> None
           | Some coordinate \<Rightarrow> coordinateToLogical timeScale coordinate))"

text \<open>\<open>autoscaleInfo\<close> of the trend line and of the rectangle.\<close>

definition twoPoint_autoscaleInfo ::
  "('t, 't AnchorPoint \<times> 't AnchorPoint, 'o, 's) Primitive \<Rightarrow> real \<Rightarrow> real \<Rightarrow> AutoscaleInfo option" where
  "twoPoint_autoscaleInfo st startTimePoint endTimePoint =
     (case (getLogicalIndex st (time (fst (p_anchors st))),
            getLogicalIndex st (time (snd (p_anchors st)))) of
        (Some p1Index, Some p2Index) \<Rightarrow>
          (let minIndex = min p1Index p2Index;
               maxIndex = max p1Index p2Index
           in if endTimePoint < minIndex \<or> startTimePoint > maxIndex then None
              else Some \<lparr>minValue = min (price (fst (p_anchors st))) (price (snd (p_anchors st))),
                         maxValue = max (price (fst (p_anchors st))) (price (snd (p_anchors st)))\<rparr>)
      | _ \<Rightarrow> None)"

section \<open>Trend line primitive\<close>

record TrendLineOptions =
  tlo_lineColor :: string
  tlo_lineWidth :: real
  tlo_lineStyle :: LineStyle
  tlo_showLabels :: bool
  tlo_labelBackgroundColor :: string
  tlo_labelTextColor :: string
  tlo_extendToEdges :: bool
  tlo_externalId :: string
  tlo_selected :: bool
  tlo_anchorPointColor :: string

definition trendLineOptionsDefaults :: TrendLineOptions where
  "trendLineOptionsDefaults =
     \<lparr>tlo_lineColor = ''#f97316'',
      tlo_lineWidth = 2,
      tlo_lineStyle = Solid,
      tlo_showLabels = False,
      tlo_labelBackgroundColor = ''rgba(255, 255, 255, 0.85)'',
      tlo_labelTextColor = ''rgb(0, 0, 0)'',
      tlo_extendToEdges = True,
      tlo_externalId = [],
      tlo_selected = False,
      tlo_anchorPointColor = ''#2962ff''\<rparr>"

text \<open>
  The geometry of the primitive (\<open>updateAllViews\<close>, \<open>hitTest\<close>, \<open>autoscaleInfo\<close>) is modelled
  on a state whose options have the declared type \<open>TrendLineOptions\<close>, every property
  holding a value.
\<close>

type_synonym 't TrendLine =
  "('t, 't AnchorPoint \<times> 't AnchorPoint, TrendLineOptions, TrendLineRendererData) Primitive"

subsection \<open>The options object at run time\<close>

text \<open>
  \<open>applyOptions\<close> takes a \<open>DeepPartial<TrendLineOptions>\<close>. The compiler admits three cases
  for each property of such an argument: the property is left out, it is given with a
  value of the declared type, or it is given with the value \<open>undefined\<close>
  (\<open>{ lineColor: undefined }\<close> type-checks). The object spread \<open>{ ...a, ...b }\<close> copies
  every own property of \<open>b\<close> over that of \<open>a\<close>, whatever it holds, so \<open>this._options\<close> can
  come to hold \<open>undefined\<close> in a property although its declared type has none. A property
  value at run time is therefore a \<open>JsValue\<close>; a property of a partial object is an
  optional \<open>JsValue\<close>, \<open>None\<close> for a property that is left out.
\<close>

datatype 'v JsValue = Undefined | Defined 'v

record TrendLineOptionsObject =
  tlj_lineColor :: "string JsValue"
  tlj_lineWidth :: "real JsValue"
  tlj_lineStyle :: "LineStyle JsValue"
  tlj_showLabels :: "bool JsValue"
  tlj_labelBackgroundColor :: "string JsValue"
  tlj_labelTextColor :: "string JsValue"
  tlj_extendToEdges :: "bool JsValue"
  tlj_externalId :: "string JsValue"
  tlj_selected :: "bool JsValue"
  tlj_anchorPointColor :: "string JsValue"

record TrendLineOptionsPartial =
  tlp_lineColor :: "string JsValue option"
  tlp_lineWidth :: "real JsValue option"
  tlp_lineStyle :: "LineStyle JsValue option"
  tlp_showLabels :: "bool JsValue option"
  tlp_labelBackgroundColor :: "string JsValue option"
  tlp_labelTextColor :: "string JsValue option"
  tlp_extendToEdges :: "bool JsValue option"
  tlp_externalId :: "string JsValue option"
  tlp_selected :: "bool JsValue option"
  tlp_anchorPointColor :: "string JsValue option"

definition emptyPartial :: TrendLineOptionsPartial where
  "emptyPartial =
     \<lparr>tlp_lineColor = None, tlp_lineWidth = None, tlp_lineStyle = None, tlp_showLabels = None,
      tlp_labelBackgroundColor = None, tlp_labelTextColor = None, tlp_extendToEdges = None,
      tlp_externalId = None, tlp_selected = None, tlp_anchorPointColor = None\<rparr>"

text \<open>An options value of the declared type as a run-time object: every property holds
  a value.\<close>

definition toObject :: "TrendLineOptions \<Rightarrow> TrendLineOptionsObject" where
  "toObject opts =
     \<lparr>tlj_lineColor = Defined (tlo_lineColor opts),
      tlj_lineWidth = Defined (tlo_lineWidth opts),
      tlj_lineStyle = Defined (tlo_lineStyle opts),
      tlj_showLabels = Defined (tlo_showLabels opts),
      tlj_labelBackgroundColor = Defined (tlo_labelBackgroundColor opts),
      tlj_labelTextColor = Defined (tlo_labelTextColor opts),
      tlj_extendToEdges = Defined (tlo_extendToEdges opts),
      tlj_externalId = Defined (tlo_externalId opts),
      tlj_selected = Defined (tlo_selected opts),
      tlj_anchorPointColor = Defined (tlo_anchorPointColor opts)\<rparr>"

text \<open>A full object passed where a partial one is expected: every property is given.\<close>

definition asPartial :: "TrendLineOptionsObject \<Rightarrow> TrendLineOptionsPartial" where
  "asPartial opts =
     \<lparr>tlp_lineColor = Some (tlj_lineColor opts),
      tlp_lineWidth = Some (tlj_lineWidth opts),
      tlp_lineStyle = Some (tlj_lineStyle opts),
      tlp_showLabels = Some (tlj_showLabels opts),
      tlp_labelBackgroundColor = Some (tlj_labelBackgroundColor opts),
      tlp_labelTextColor = Some (tlj_labelTextColor opts),
      tlp_extendToEdges = Some (tlj_extendToEdges opts),
      tlp_externalId = Some (tlj_externalId opts),
      tlp_selected = Some (tlj_selected opts),
      tlp_anchorPointColor = Some (tlj_anchorPointColor opts)\<rparr>"

text \<open>One property of \<open>{ ...a, ...b }\<close>: that of \<open>b\<close> when \<open>b\<close> has the property, also when
  it holds \<open>undefined\<close>; that of \<open>a\<close> otherwise.\<close>

definition override :: "'v JsValue option \<Rightarrow> 'v JsValue option \<Rightarrow> 'v JsValue option" where
  "override a b = (case b of Some v \<Rightarrow> Some v | None \<Rightarrow> a)"

definition spread :: "TrendLineOptionsPartial \<Rightarrow> TrendLineOptionsPartial \<Rightarrow> TrendLineOptionsPartial" where
  "spread a b =
     \<lparr>tlp_lineColor = override (tlp_lineColor a) (tlp_lineColor b),
      tlp_lineWidth = override (tlp_lineWidth a) (tlp_lineWidth b),
      tlp_lineStyle = override (tlp_lineStyle a) (tlp_lineStyle b),
      tlp_showLabels = override (tlp_showLabels a) (tlp_showLabels b),
      tlp_labelBackgroundColor = override (tlp_labelBackgroundColor a) (tlp_labelBackgroundColor b),
      tlp_labelTextColor = override (tlp_labelTextColor a) (tlp_labelTextColor b),
      tlp_extendToEdges = override (tlp_extendToEdges a) (tlp_extendToEdges b),
      tlp_externalId = override (tlp_externalId a) (tlp_externalId b),
      tlp_selected = override (tlp_selected a) (tlp_selected b),
      tlp_anchorPointColor = override (tlp_anchorPointColor a) (tlp_anchorPointColor b)\<rparr>"

text \<open>Reading a property of an object: \<open>undefined\<close> when the object does not have it.\<close>

definition getProperty :: "'v JsValue option \<Rightarrow> 'v JsValue" where
  "getProperty prop = (case prop of Some v \<Rightarrow> v | None \<Rightarrow> Undefined)"

text \<open>\<open>mergeOptionsWithDefaults\<close>: \<open>{ ...trendLineOptionsDefaults, ...options }\<close>.\<close>

definition mergeOptionsWithDefaults :: "TrendLineOptionsPartial \<Rightarrow> TrendLineOptionsObject" where
  "mergeOptionsWithDefaults options =
     (let m = spread (asPartial (toObject trendLineOptionsDefaults)) options
      in \<lparr>tlj_lineColor = getProperty (tlp_lineColor m),
          tlj_lineWidth = getProperty (tlp_lineWidth m),
          tlj_lineStyle = getProperty (tlp_lineStyle m),
          tlj_showLabels = getProperty (tlp_showLabels m),
          tlj_labelBackgroundColor = getProperty (tlp_labelBackgroundColor m),
          tlj_labelTextColor = getProperty (tlp_labelTextColor m),
          tlj_extendToEdges = getProperty (tlp_extendToEdges m),
          tlj_externalId = getProperty (tlp_externalId m),
          tlj_selected = getProperty (tlp_selected m),
          tlj_anchorPointColor = getProperty (tlp_anchorPointColor m)\<rparr>)"

text \<open>
  \<open>applyOptions\<close> and \<open>options\<close> read and write \<open>this._options\<close> and call
  \<open>requestUpdate\<close>; they are modelled on the primitive state whose options field holds
  the run-time object. A state with options of the declared type is such a state through
  \<open>toObject\<close>.
\<close>

type_synonym 't TrendLineRuntime =
  "('t, 't AnchorPoint \<times> 't AnchorPoint, TrendLineOptionsObject, TrendLineRendererData) Primitive"

definition TrendLine_applyOptions ::
  "TrendLineOptionsPartial \<Rightarrow> 't TrendLineRuntime \<Rightarrow> 't TrendLineRuntime" where
  "TrendLine_applyOptions options st =
     requestUpdate
       (st\<lparr>p_options := mergeOptionsWithDefaults (spread (asPartial (p_options st)) options)\<rparr>)"

definition TrendLine_options :: "'t TrendLineRuntime \<Rightarrow> TrendLineOptionsObject" where
  "TrendLine_options st = p_options st"

subsection \<open>Extension to the chart edge\<close>

record ExtendedLine =
  el_x1 :: real
  el_y1 :: real
  el_x2 :: real
  el_y2 :: real

text \<open>
  \<open>_calculateExtendedLine\<close>, with the rounding \<open>fl\<close> of every arithmetic result. The four
  candidate intersections of the line through the anchors with the chart edges come in
  the order left, right, top, bottom, each kept when the range test of its edge passes.
\<close>

definition intersections ::
  "(real \<Rightarrow> real) \<Rightarrow> real \<Rightarrow> real \<Rightarrow> real \<Rightarrow> real \<Rightarrow> real \<Rightarrow> real \<Rightarrow> (real \<times> real) list" where
  "intersections fl x1 y1 x2 y2 chartWidth chartHeight =
     (let dx = fl (x2 - x1);
          dy = fl (y2 - y1);
          slope = fl (dy / dx);
          intercept = fl (y1 - fl (slope * x1));
          yAtLeft = intercept;
          yAtRight = fl (fl (slope * chartWidth) + intercept);
          xAtTop = fl ((- intercept) / slope);
          xAtBottom = fl (fl (chartHeight - intercept) / slope)
      in (if yAtLeft \<ge> 0 \<and> yAtLeft \<le> chartHeight then [(0, yAtLeft)] else [])
         @ (if yAtRight \<ge> 0 \<and> yAtRight \<le> chartHeight then [(chartWidth, yAtRight)] else [])
         @ (if xAtTop \<ge> 0 \<and> xAtTop \<le> chartWidth then [(xAtTop, 0)] else [])
         @ (if xAtBottom \<ge> 0 \<and> xAtBottom \<le> chartWidth then [(xAtBottom, chartHeight)] else []))"

text \<open>The dot product of the filter: \<open>toPx * dx + toPy * dy\<close>.\<close>

definition dotProduct :: "(real \<Rightarrow> real) \<Rightarrow> real \<Rightarrow> real \<Rightarrow> real \<Rightarrow> real \<Rightarrow> real \<times> real \<Rightarrow> real" where
  "dotProduct fl x1 y1 x2 y2 p =
     (let dx = fl (x2 - x1);
          dy = fl (y2 - y1);
          toPx = fl (fst p - x1);
          toPy = fl (snd p - y1)
      in fl (fl (toPx * dx) + fl (toPy * dy)))"

definition directionalIntersections ::
  "(real \<Rightarrow> real) \<Rightarrow> real \<Rightarrow> real \<Rightarrow> real \<Rightarrow> real \<Rightarrow> real \<Rightarrow> real \<Rightarrow> (real \<times> real) list" where
  "directionalIntersections fl x1 y1 x2 y2 chartWidth chartHeight =
     filter (\<lambda>p. dotProduct fl x1 y1 x2 y2 p > 0)
       (intersections fl x1 y1 x2 y2 chartWidth chartHeight)"

definition distanceFrom :: "(real \<Rightarrow> real) \<Rightarrow> real \<Rightarrow> real \<Rightarrow> real \<times> real \<Rightarrow> real" where
  "distanceFrom fl x1 y1 p =
     fl (sqrt (fl (fl (fl (fst p - x1) * fl (fst p - x1))
                  + fl (fl (snd p - y1) * fl (snd p - y1)))))"

text \<open>The loop that keeps the point furthest from the first anchor.\<close>

fun furthest ::
  "(real \<Rightarrow> real) \<Rightarrow> real \<Rightarrow> real \<Rightarrow> real \<times> real \<Rightarrow> real \<Rightarrow> (real \<times> real) list \<Rightarrow> real \<times> real" where
  "furthest fl x1 y1 furthestPoint maxDistance [] = furthestPoint"
| "furthest fl x1 y1 furthestPoint maxDistance (p # ps) =
     (let distance = distanceFrom fl x1 y1 p
      in if distance > maxDistance
         then furthest fl x1 y1 p distance ps
         else furthest fl x1 y1 furthestPoint maxDistance ps)"

definition calculateExtendedLine ::
  "(real \<Rightarrow> real) \<Rightarrow> real \<Rightarrow> real \<Rightarrow> real \<Rightarrow> real \<Rightarrow> real \<Rightarrow> real \<Rightarrow> ExtendedLine" where
  "calculateExtendedLine fl x1 y1 x2 y2 chartWidth chartHeight =
     (let dx = fl (x2 - x1);
          dy = fl (y2 - y1)
      in if \<bar>dx\<bar> < fl (1 / 10000)
         then (if dy > 0
               then \<lparr>el_x1 = x1, el_y1 = y1, el_x2 = x1, el_y2 = chartHeight\<rparr>
               else \<lparr>el_x1 = x1, el_y1 = y1, el_x2 = x1, el_y2 = 0\<rparr>)
         else if \<bar>dy\<bar> < fl (1 / 10000)
         then (if dx > 0
               then \<lparr>el_x1 = x1, el_y1 = y1, el_x2 = chartWidth, el_y2 = y1\<rparr>
               else \<lparr>el_x1 = x1, el_y1 = y1, el_x2 = 0, el_y2 = y1\<rparr>)
         else (let furthestPoint =
                     furthest fl x1 y1 (x2, y2) 0
                       (directionalIntersections fl x1 y1 x2 y2 chartWidth chartHeight)
               in \<lparr>el_x1 = x1, el_y1 = y1, el_x2 = fst furthestPoint, el_y2 = snd furthestPoint\<rparr>))"

text \<open>The snapshot of the trend line. The primitive is modelled in exact arithmetic, like
  the renderers.\<close>

definition TrendLine_calculateRendererData :: "'t TrendLine \<Rightarrow> TrendLineRendererData option" where
  "TrendLine_calculateRendererData st =
     (case (p_chart st, p_series st) of
        (Some timeScale, Some series) \<Rightarrow>
          (let x1 = timeToCoordinate timeScale (time (fst (p_anchors st)));
               y1 = priceToCoordinate series (price (fst (p_anchors st)));
               x2 = timeToCoordinate timeScale (time (snd (p_anchors st)));
               y2 = priceToCoordinate series (price (snd (p_anchors st)));
               chartWidth = timeScaleWidth timeScale;
               chartHeight = paneHeight series;
               opts = p_options st;
               extended =
                 (case (x1, y1, x2, y2) of
                    (Some x1', Some y1', Some x2', Some y2') \<Rightarrow>
                      (if tlo_extendToEdges opts
                       then Some (calculateExtendedLine exact x1' y1' x2' y2' chartWidth chartHeight)
                       else None)
                  | _ \<Rightarrow> None)
           in Some
                \<lparr>tl_p1 = \<lparr>pt_x = x1, pt_y = y1\<rparr>,
                 tl_p2 = \<lparr>pt_x = x2, pt_y = y2\<rparr>,
                 tl_extendedStart =
                   (case extended of
                      Some e \<Rightarrow> \<lparr>pt_x = Some (el_x1 e), pt_y = Some (el_y1 e)\<rparr>
                    | None \<Rightarrow> \<lparr>pt_x = x1, pt_y = y1\<rparr>),
                 tl_extendedEnd =
                   (case extended of
                      Some e \<Rightarrow> \<lparr>pt_x = Some (el_x2 e), pt_y = Some (el_y2 e)\<rparr>
                    | None \<Rightarrow> \<lparr>pt_x = x2, pt_y = y2\<rparr>),
                 tl_text1 = priceFormat series (price (fst (p_anchors st))),
                 tl_text2 = priceFormat series (price (snd (p_anchors st))),
                 tl_lineColor = tlo_lineColor opts,
                 tl_lineWidth = tlo_lineWidth opts,
                 tl_lineStyle = tlo_lineStyle opts,
                 tl_showLabels = tlo_showLabels opts,
                 tl_labelBackgroundColor = tlo_labelBackgroundColor opts,
                 tl_labelTextColor = tlo_labelTextColor opts,
                 tl_extendToEdges = tlo_extendToEdges opts,
                 tl_externalId = tlo_externalId opts,
                 tl_chartWidth = chartWidth,
                 tl_chartHeight = chartHeight,
                 tl_selected = tlo_selected opts,
                 tl_anchorPointColor = tlo_anchorPointColor opts\<rparr>)
      | _ \<Rightarrow> None)"

definition TrendLine_updateAllViews :: "'t TrendLine \<Rightarrow> 't TrendLine" where
  "TrendLine_updateAllViews st = updateAllViews TrendLine_calculateRendererData st"

definition TrendLine_hitTest :: "'t TrendLine \<Rightarrow> real \<Rightarrow> real \<Rightarrow> PrimitiveHoveredItem option" where
  "TrendLine_hitTest st x y = TrendLineRenderer_hitTest (p_rendererData st) x y"

definition TrendLine_autoscaleInfo :: "'t TrendLine \<Rightarrow> real \<Rightarrow> real \<Rightarrow> AutoscaleInfo option" where
  "TrendLine_autoscaleInfo st startTimePoint endTimePoint =
     twoPoint_autoscaleInfo st startTimePoint endTimePoint"

section \<open>Rectangle primitive\<close>

record RectangleOptions =
  rco_lineColor :: string
  rco_lineWidth :: real
  rco_lineStyle :: LineStyle
  rco_backgroundColor :: string
  rco_labelText :: string
  rco_showLabel :: bool
  rco_labelBackgroundColor :: string
  rco_labelTextColor :: string
  rco_extendMode :: RectangleExtendMode
  rco_externalId :: string
  rco_selected :: bool
  rco_anchorPointColor :: string
  rco_showMiddleLine :: bool
  rco_middleLineColor :: string
  rco_middleLineStyle :: LineStyle
  rco_middleLineWidth :: real

type_synonym 't Rectangle =
  "('t, 't AnchorPoint \<times> 't AnchorPoint, RectangleOptions, RectangleRendererData) Primitive"

definition Rectangle_calculateRendererData :: "'t Rectangle \<Rightarrow> RectangleRendererData option" where
  "Rectangle_calculateRendererData st =
     (case (p_chart st, p_series st) of
        (Some timeScale, Some series) \<Rightarrow>
          (case (timeToCoordinate timeScale (time (fst (p_anchors st))),
                 priceToCoordinate series (price (fst (p_anchors st))),
                 timeToCoordinate timeScale (time (snd (p_anchors st))),
                 priceToCoordinate series (price (snd (p_anchors st)))) of
             (Some x1, Some y1, Some x2, Some y2) \<Rightarrow>
               (let chartWidth = timeScaleWidth timeScale;
                    chartHeight = paneHeight series;
                    opts = p_options st;
                    minX = min x1 x2;
                    maxX = max x1 x2;
                    minY = min y1 y2;
                    maxY = max y1 y2;
                    drawLeft = (case rco_extendMode opts of
                                  Mode_left \<Rightarrow> 0
                                | Mode_right \<Rightarrow> minX
                                | Mode_both \<Rightarrow> 0
                                | Mode_none \<Rightarrow> minX);
                    drawRight = (case rco_extendMode opts of
                                   Mode_left \<Rightarrow> maxX
                                 | Mode_right \<Rightarrow> chartWidth
                                 | Mode_both \<Rightarrow> chartWidth
                                 | Mode_none \<Rightarrow> maxX);
                    drawTop = minY;
                    drawBottom = maxY
                in Some
                     \<lparr>rc_p1 = \<lparr>pt_x = Some x1, pt_y = Some y1\<rparr>,
                      rc_p2 = \<lparr>pt_x = Some x2, pt_y = Some y2\<rparr>,
                      rc_drawLeft = drawLeft,
                      rc_drawRight = drawRight,
                      rc_drawTop = drawTop,
                      rc_drawBottom = drawBottom,
                      rc_lineColor = rco_lineColor opts,
                      rc_lineWidth = rco_lineWidth opts,
                      rc_lineStyle = rco_lineStyle opts,
                      rc_backgroundColor = rco_backgroundColor opts,
                      rc_labelText = rco_labelText opts,
                      rc_showLabel = rco_showLabel opts,
                      rc_labelBackgroundColor = rco_labelBackgroundColor opts,
                      rc_labelTextColor = rco_labelTextColor opts,
                      rc_extendMode = rco_extendMode opts,
                      rc_externalId = rco_externalId opts,
                      rc_chartWidth = chartWidth,
                      rc_chartHeight = chartHeight,
                      rc_selected = rco_selected opts,
                      rc_anchorPointColor = rco_anchorPointColor opts,
                      rc_showMiddleLine = rco_showMiddleLine opts,
                      rc_middleLineColor = rco_middleLineColor opts,
                      rc_middleLineStyle = rco_middleLineStyle opts,
                      rc_middleLineWidth = rco_middleLineWidth opts\<rparr>)
           | _ \<Rightarrow> None)
      | _ \<Rightarrow> None)"

definition Rectangle_updateAllViews :: "'t Rectangle \<Rightarrow> 't Rectangle" where
  "Rectangle_updateAllViews st = updateAllViews Rectangle_calculateRendererData st"

definition Rectangle_hitTest :: "'t Rectangle \<Rightarrow> real \<Rightarrow> real \<Rightarrow> PrimitiveHoveredItem option" where
  "Rectangle_hitTest st x y = RectangleRenderer_hitTest (p_rendererData st) x y"

definition Rectangle_autoscaleInfo :: "'t Rectangle \<Rightarrow> real \<Rightarrow> real \<Rightarrow> AutoscaleInfo option" where
  "Rectangle_autoscaleInfo st startTimePoint endTimePoint =
     twoPoint_autoscaleInfo st startTimePoint endTimePoint"

section \<open>Horizontal line primitive\<close>

record HorizontalLineOptions =
  hlo_lineColor :: string
  hlo_lineWidth :: real
  hlo_lineStyle :: LineStyle
  hlo_showPriceLabel :: bool
  hlo_externalId :: string
  hlo_selected :: bool
  hlo_anchorPointColor :: string
  hlo_anchorOffsetFromRight :: real

definition horizontalLineOptionsDefaults :: HorizontalLineOptions where
  "horizontalLineOptionsDefaults =
     \<lparr>hlo_lineColor = ''#f97316'',
      hlo_lineWidth = 2,
      hlo_lineStyle = Solid,
      hlo_showPriceLabel = True,
      hlo_externalId = [],
      hlo_selected = False,
      hlo_anchorPointColor = ''#2962ff'',
      hlo_anchorOffsetFromRight = 50\<rparr>"

type_synonym 't HorizontalLine =
  "('t, real, HorizontalLineOptions, HorizontalLineRendererData) Primitive"

definition HorizontalLine_calculateRendererData ::
  "'t HorizontalLine \<Rightarrow> HorizontalLineRendererData option" where
  "HorizontalLine_calculateRendererData st =
     (case (p_chart st, p_series st) of
        (Some timeScale, Some series) \<Rightarrow>
          (let y = priceToCoordinate series (p_anchors st);
               opts = p_options st
           in Some
                \<lparr>hl_y = y,
                 hl_lineColor = hlo_lineColor opts,
                 hl_lineWidth = hlo_lineWidth opts,
                 hl_lineStyle = hlo_lineStyle opts,
                 hl_externalId = hlo_externalId opts,
                 hl_chartWidth = timeScaleWidth timeScale,
                 hl_selected = hlo_selected opts,
                 hl_anchorPointColor = hlo_anchorPointColor opts,
                 hl_anchorOffsetFromRight = hlo_anchorOffsetFromRight opts\<rparr>)
      | _ \<Rightarrow> None)"

definition HorizontalLine_updateAllViews :: "'t HorizontalLine \<Rightarrow> 't HorizontalLine" where
  "HorizontalLine_updateAllViews st = updateAllViews HorizontalLine_calculateRendererData st"

definition HorizontalLine_hitTest ::
  "'t HorizontalLine \<Rightarrow> real \<Rightarrow> real \<Rightarrow> PrimitiveHoveredItem option" where
  "HorizontalLine_hitTest st x y = HorizontalLineRenderer_hitTest (p_rendererData st) x y"

definition HorizontalLine_autoscaleInfo ::
  "'t HorizontalLine \<Rightarrow> real \<Rightarrow> real \<Rightarrow> AutoscaleInfo option" where
  "HorizontalLine_autoscaleInfo st startTimePoint endTimePoint =
     Some \<lparr>minValue = p_anchors st, maxValue = p_anchors st\<rparr>"

section \<open>Horizontal ray primitive\<close>

record HorizontalRayOptions =
  hro_lineColor :: string
  hro_lineWidth :: real
  hro_lineStyle :: LineStyle
  hro_showPriceLabel :: bool
  hro_labelBackgroundColor :: string
  hro_labelTextColor :: string
  hro_externalId :: string
  hro_selected :: bool
  hro_anchorPointColor :: string

type_synonym 't HorizontalRay =
  "('t, 't AnchorPoint, HorizontalRayOptions, HorizontalRayRendererData) Primitive"

definition HorizontalRay_calculateRendererData ::
  "'t HorizontalRay \<Rightarrow> HorizontalRayRendererData option" where
  "HorizontalRay_calculateRendererData st =
     (case (p_chart st, p_series st) of
        (Some timeScale, Some series) \<Rightarrow>
          (let anchorX = timeToCoordinate timeScale (time (p_anchors st));
               anchorY = priceToCoordinate series (price (p_anchors st));
               chartWidth = timeScaleWidth timeScale;
               endPoint = (if anchorX = None \<or> anchorY = None
                           then \<lparr>pt_x = None, pt_y = None\<rparr>
                           else \<lparr>pt_x = Some chartWidth, pt_y = anchorY\<rparr>);
               opts = p_options st
           in Some
                \<lparr>hr_anchor = \<lparr>pt_x = anchorX, pt_y = anchorY\<rparr>,
                 hr_endPoint = endPoint,
                 hr_priceLabel = priceFormat series (price (p_anchors st)),
                 hr_lineColor = hro_lineColor opts,
                 hr_lineWidth = hro_lineWidth opts,
                 hr_lineStyle = hro_lineStyle opts,
                 hr_showPriceLabel = hro_showPriceLabel opts,
                 hr_labelBackgroundColor = hro_labelBackgroundColor opts,
                 hr_labelTextColor = hro_labelTextColor opts,
                 hr_externalId = hro_externalId opts,
                 hr_chartWidth = chartWidth,
                 hr_chartHeight = paneHeight series,
                 hr_selected = hro_selected opts,
                 hr_anchorPointColor = hro_anchorPointColor opts\<rparr>)
      | _ \<Rightarrow> None)"

definition HorizontalRay_updateAllViews :: "'t HorizontalRay \<Rightarrow> 't HorizontalRay" where
  "HorizontalRay_updateAllViews st = updateAllViews HorizontalRay_calculateRendererData st"

definition HorizontalRay_hitTest ::
  "'t HorizontalRay \<Rightarrow> real \<Rightarrow> real \<Rightarrow> PrimitiveHoveredItem option" where
  "HorizontalRay_hitTest st x y = HorizontalRayRenderer_hitTest (p_rendererData st) x y"

definition HorizontalRay_autoscaleInfo ::
  "'t HorizontalRay \<Rightarrow> real \<Rightarrow> real \<Rightarrow> AutoscaleInfo option" where
  "HorizontalRay_autoscaleInfo st startTimePoint endTimePoint =
     (case getLogicalIndex st (time (p_anchors st)) of
        None \<Rightarrow> None
      | Some anchorIndex \<Rightarrow>
          (if endTimePoint < anchorIndex then None
           else Some \<lparr>minValue = price (p_anchors st), maxValue = price (p_anchors st)\<rparr>))"

section \<open>Vertical line primitive\<close>

record VerticalLineOptions =
  vlo_lineColor :: string
  vlo_lineWidth :: real
  vlo_lineStyle :: LineStyle
  vlo_showTimeLabel :: bool
  vlo_labelBackgroundColor :: string
  vlo_labelTextColor :: string
  vlo_externalId :: string
  vlo_selected :: bool
  vlo_timeframe :: string

type_synonym 't VerticalLine =
  "('t, 't, VerticalLineOptions, VerticalLineRendererDataV0) Primitive"

text \<open>
  The snapshot of the vertical line is the one of the renderer revision without anchor
  fields. \<open>formatTimeLabel\<close> reads the local calendar through JavaScript's \<open>Date\<close>; it is
  a parameter here.
\<close>

definition VerticalLine_calculateRendererData ::
  "('t \<Rightarrow> string \<Rightarrow> string) \<Rightarrow> 't VerticalLine \<Rightarrow> VerticalLineRendererDataV0 option" where
  "VerticalLine_calculateRendererData formatTimeLabel st =
     (case (p_chart st, p_series st) of
        (Some timeScale, Some series) \<Rightarrow>
          (let x = timeToCoordinate timeScale (p_anchors st);
               opts = p_options st;
               timeLabel = formatTimeLabel (p_anchors st) (vlo_timeframe opts)
           in Some
                \<lparr>vl0_x = x,
                 vl0_timeLabel = timeLabel,
                 vl0_lineColor = vlo_lineColor opts,
                 vl0_lineWidth = vlo_lineWidth opts,
                 vl0_lineStyle = vlo_lineStyle opts,
                 vl0_showTimeLabel = vlo_showTimeLabel opts,
                 vl0_labelBackgroundColor = vlo_labelBackgroundColor opts,
                 vl0_labelTextColor = vlo_labelTextColor opts,
                 vl0_externalId = vlo_externalId opts,
                 vl0_chartWidth = timeScaleWidth timeScale,
                 vl0_chartHeight = paneHeight series,
                 vl0_selected = vlo_selected opts\<rparr>)
      | _ \<Rightarrow> None)"

definition VerticalLine_updateAllViews ::
  "('t \<Rightarrow> string \<Rightarrow> string) \<Rightarrow> 't VerticalLine \<Rightarrow> 't VerticalLine" where
  "VerticalLine_updateAllViews formatTimeLabel st =
     updateAllViews (VerticalLine_calculateRendererData formatTimeLabel) st"

definition VerticalLine_hitTest :: "'t VerticalLine \<Rightarrow> real \<Rightarrow> real \<Rightarrow> PrimitiveHoveredItem option" where
  "VerticalLine_hitTest st x y = VerticalLineRendererV0_hitTest (p_rendererData st) x y"

definition VerticalLine_autoscaleInfo :: "'t VerticalLine \<Rightarrow> real \<Rightarrow> real \<Rightarrow> AutoscaleInfo option" where
  "VerticalLine_autoscaleInfo st startTimePoint endTimePoint = None"

section \<open>Long/short position primitive\<close>

record LongPositionOptions =
  lpo_lineColor :: string
  lpo_lineWidth :: real
  lpo_lineStyle :: LineStyle
  lpo_profitBackgroundColor :: string
  lpo_riskBackgroundColor :: string
  lpo_entryLineColor :: string
  lpo_externalId :: string
  lpo_selected :: bool
  lpo_anchorPointColor :: string
  lpo_labelBackgroundColor :: string
  lpo_labelTextColor :: string
  lpo_targetLabelBackgroundColor :: string
  lpo_stopLabelBackgroundColor :: string

record 't LongPositionData =
  entryTime :: 't
  entryPrice :: real
  targetPrice :: real
  stopPrice :: real
  widthBars :: real

type_synonym 't LongPosition =
  "('t, 't LongPositionData, LongPositionOptions, LongPositionRendererData) Primitive"

definition LongPosition_calculateRendererData ::
  "'t LongPosition \<Rightarrow> LongPositionRendererData option" where
  "LongPosition_calculateRendererData st =
     (case (p_chart st, p_series st) of
        (Some timeScale, Some series) \<Rightarrow>
          (case (timeToCoordinate timeScale (entryTime (p_anchors st)),
                 priceToCoordinate series (entryPrice (p_anchors st))) of
             (Some entryX, Some entryY) \<Rightarrow>
               (case coordinateToLogical timeScale entryX of
                  None \<Rightarrow> None
                | Some entryLogical \<Rightarrow>
                    (let rightLogical = entryLogical + widthBars (p_anchors st)
                     in case logicalToCoordinate timeScale rightLogical of
                          None \<Rightarrow> None
                        | Some rightX \<Rightarrow>
                            (case (priceToCoordinate series (targetPrice (p_anchors st)),
                                   priceToCoordinate series (stopPrice (p_anchors st))) of
                               (Some targetY, Some stopY) \<Rightarrow>
                                 (let opts = p_options st
                                  in Some
                                       \<lparr>lp_entry = \<lparr>pt_x = Some entryX, pt_y = Some entryY\<rparr>,
                                        lp_targetY = Some targetY,
                                        lp_stopY = Some stopY,
                                        lp_rightX = Some rightX,
                                        lp_entryPrice = entryPrice (p_anchors st),
                                        lp_targetPrice = targetPrice (p_anchors st),
                                        lp_stopPrice = stopPrice (p_anchors st),
                                        lp_lineColor = lpo_lineColor opts,
                                        lp_lineWidth = lpo_lineWidth opts,
                                        lp_lineStyle = lpo_lineStyle opts,
                                        lp_profitBackgroundColor = lpo_profitBackgroundColor opts,
                                        lp_riskBackgroundColor = lpo_riskBackgroundColor opts,
                                        lp_entryLineColor = lpo_entryLineColor opts,
                                        lp_externalId = lpo_externalId opts,
                                        lp_chartWidth = timeScaleWidth timeScale,
                                        lp_chartHeight = paneHeight series,
                                        lp_selected = lpo_selected opts,
                                        lp_anchorPointColor = lpo_anchorPointColor opts,
                                        lp_labelBackgroundColor = lpo_labelBackgroundColor opts,
                                        lp_labelTextColor = lpo_labelTextColor opts,
                                        lp_targetLabelBackgroundColor =
                                          lpo_targetLabelBackgroundColor opts,
                                        lp_stopLabelBackgroundColor =
                                          lpo_stopLabelBackgroundColor opts,
                                        lp_direction = None\<rparr>)
                             | _ \<Rightarrow> None)))
           | _ \<Rightarrow> None)
      | _ \<Rightarrow> None)"

definition LongPosition_updateAllViews :: "'t LongPosition \<Rightarrow> 't LongPosition" where
  "LongPosition_updateAllViews st = updateAllViews LongPosition_calculateRendererData st"

definition LongPosition_hitTest :: "'t LongPosition \<Rightarrow> real \<Rightarrow> real \<Rightarrow> PrimitiveHoveredItem option" where
  "LongPosition_hitTest st x y = LongPositionRenderer_hitTest (p_rendererData st) x y"

definition LongPosition_autoscaleInfo :: "'t LongPosition \<Rightarrow> real \<Rightarrow> real \<Rightarrow> AutoscaleInfo option" where
  "LongPosition_autoscaleInfo st startTimePoint endTimePoint =
     (case getLogicalIndex st (entryTime (p_anchors st)) of
        None \<Rightarrow> None
      | Some entryIndex \<Rightarrow>
          (let endIndex = entryIndex + widthBars (p_anchors st)
           in if endTimePoint < entryIndex \<or> startTimePoint > endIndex then None
              else Some
                     \<lparr>minValue = min (entryPrice (p_anchors st))
                                   (min (targetPrice (p_anchors st)) (stopPrice (p_anchors st))),
                      maxValue = max (entryPrice (p_anchors st))
                                   (max (targetPrice (p_anchors st)) (stopPrice (p_anchors st)))\<rparr>))"

section \<open>Background regions primitive\<close>

record 't BackgroundRegionData =
  brd_time :: 't
  brd_color :: string

record BackgroundRegionsOptions =
  bro_externalId :: string

type_synonym 't BackgroundRegions =
  "('t, 't BackgroundRegionData list, BackgroundRegionsOptions, BackgroundRegionsRendererData)
   Primitive"

text \<open>The loop over the data points, which skips a point whose time has no coordinate.\<close>

fun collectRegions ::
  "'t TimeScaleApi \<Rightarrow> 't BackgroundRegionData list \<Rightarrow> BackgroundRegionRendererData list" where
  "collectRegions timeScale [] = []"
| "collectRegions timeScale (point # points) =
     (case timeToCoordinate timeScale (brd_time point) of
        None \<Rightarrow> collectRegions timeScale points
      | Some x \<Rightarrow>
          \<lparr>br_x = x, br_color = brd_color point, br_barWidth = barSpacing timeScale\<rparr>
          # collectRegions timeScale points)"

text \<open>Unlike the other six, this \<open>_calculateRendererData\<close> never returns \<open>null\<close>: without
  a host, or without data, it returns the empty snapshot.\<close>

definition BackgroundRegions_calculateRendererData ::
  "'t BackgroundRegions \<Rightarrow> BackgroundRegionsRendererData" where
  "BackgroundRegions_calculateRendererData st =
     (case (p_chart st, p_series st) of
        (Some timeScale, Some series) \<Rightarrow>
          (if length (p_anchors st) = 0 then \<lparr>brs_regions = [], brs_chartHeight = 0\<rparr>
           else \<lparr>brs_regions = collectRegions timeScale (p_anchors st),
                 brs_chartHeight = paneHeight series\<rparr>)
      | _ \<Rightarrow> \<lparr>brs_regions = [], brs_chartHeight = 0\<rparr>)"

definition BackgroundRegions_updateAllViews :: "'t BackgroundRegions \<Rightarrow> 't BackgroundRegions" where
  "BackgroundRegions_updateAllViews st =
     st\<lparr>p_rendererData := Some (BackgroundRegions_calculateRendererData st)\<rparr>"

definition BackgroundRegions_hitTest :: "'t BackgroundRegions \<Rightarrow> PrimitiveHoveredItem option" where
  "BackgroundRegions_hitTest st = None"

section \<open>Example inputs\<close>

text \<open>A horizontal line at \<open>y = 100\<close> in a chart 200 pixels wide, with the default
  options, and the same line selected (its handle is at \<open>x = 150\<close>).\<close>

definition hl_example :: HorizontalLineRendererData where
  "hl_example =
     \<lparr>hl_y = Some 100, hl_lineColor = ''#f97316'', hl_lineWidth = 2, hl_lineStyle = Solid,
      hl_externalId = ''hl'', hl_chartWidth = 200, hl_selected = False,
      hl_anchorPointColor = ''#2962ff'', hl_anchorOffsetFromRight = 50\<rparr>"

definition hl_example_selected :: HorizontalLineRendererData where
  "hl_example_selected = hl_example\<lparr>hl_selected := True\<rparr>"

text \<open>A vertical line at \<open>x = 100\<close> in a chart of 200 by 100 pixels, in both snapshot
  revisions.\<close>

definition vl_example :: VerticalLineRendererData where
  "vl_example =
     \<lparr>vl_x = Some 100, vl_timeLabel = ''Mon 21 Jul '25'', vl_lineColor = ''#f97316'',
      vl_lineWidth = 2, vl_lineStyle = Solid, vl_showTimeLabel = True,
      vl_labelBackgroundColor = ''rgba(255, 255, 255, 0.85)'', vl_labelTextColor = ''rgb(0, 0, 0)'',
      vl_externalId = ''vl'', vl_chartWidth = 200, vl_chartHeight = 100, vl_selected = False,
      vl_anchorPointColor = ''#2962ff'', vl_anchorOffsetFromBottom = 50\<rparr>"

definition vl0_example :: VerticalLineRendererDataV0 where
  "vl0_example =
     \<lparr>vl0_x = Some 100, vl0_timeLabel = ''Mon 21 Jul '25'', vl0_lineColor = ''#f97316'',
      vl0_lineWidth = 2, vl0_lineStyle = Solid, vl0_showTimeLabel = True,
      vl0_labelBackgroundColor = ''rgba(255, 255, 255, 0.85)'',
      vl0_labelTextColor = ''rgb(0, 0, 0)'',
      vl0_externalId = ''vl'', vl0_chartWidth = 200, vl0_chartHeight = 100, vl0_selected = True\<rparr>"

text \<open>A host whose times are natural numbers: bar \<open>t\<close> is at pixel \<open>10 t\<close> and logical
  index \<open>t\<close>, times beyond 100 have no coordinate; the chart is 200 pixels wide, the pane
  100 pixels high, and price \<open>p\<close> is at pixel \<open>100 - p\<close> (negative prices have none).\<close>

definition example_timeScale :: "nat TimeScaleApi" where
  "example_timeScale =
     \<lparr>timeToCoordinate = (\<lambda>t. if t \<le> 100 then Some (10 * real t) else None),
      coordinateToLogical = (\<lambda>c. Some (c / 10)),
      logicalToCoordinate = (\<lambda>l. Some (l * 10)),
      timeScaleWidth = 200,
      barSpacing = 10\<rparr>"

definition example_series :: SeriesApi where
  "example_series =
     \<lparr>priceToCoordinate = (\<lambda>p. if p \<ge> 0 then Some (100 - p) else None),
      paneHeight = 100,
      priceFormat = (\<lambda>p. ''price'')\<rparr>"

definition example_param :: "nat SeriesAttachedParameter" where
  "example_param = \<lparr>param_chart = example_timeScale, param_series = example_series\<rparr>"

definition rectangleOptionsDefaults :: RectangleOptions where
  "rectangleOptionsDefaults =
     \<lparr>rco_lineColor = ''#f97316'',
      rco_lineWidth = 2,
      rco_lineStyle = Solid,
      rco_backgroundColor = ''rgba(249, 115, 22, 0.2)'',
      rco_labelText = [],
      rco_showLabel = False,
      rco_labelBackgroundColor = ''rgba(255, 255, 255, 0.85)'',
      rco_labelTextColor = ''rgb(0, 0, 0)'',
      rco_extendMode = Mode_right,
      rco_externalId = [],
      rco_selected = False,
      rco_anchorPointColor = ''#2962ff'',
      rco_showMiddleLine = False,
      rco_middleLineColor = ''#f97316'',
      rco_middleLineStyle = Dashed,
      rco_middleLineWidth = 1\<rparr>"

text \<open>An attached rectangle with corners at times 2 and 8 (pixels 20 and 80) and prices
  70 and 40 (pixels 30 and 60), in a given extend mode.\<close>

definition rect_example :: "RectangleExtendMode \<Rightarrow> nat Rectangle" where
  "rect_example mode =
     \<lparr>p_chart = Some example_timeScale, p_series = Some example_series,
      p_requestUpdate = True, p_updateRequests = 1,
      p_anchors = (\<lparr>time = 8, price = 40\<rparr>, \<lparr>time = 2, price = 70\<rparr>),
      p_options = rectangleOptionsDefaults\<lparr>rco_extendMode := mode\<rparr>,
      p_rendererData = None\<rparr>"

text \<open>A position box snapshot with entry 100, target 120 and stop 90, in a given
  direction.\<close>

definition lp_example :: "PositionDirection option \<Rightarrow> bool \<Rightarrow> LongPositionRendererData" where
  "lp_example direction selected =
     \<lparr>lp_entry = \<lparr>pt_x = Some 20, pt_y = Some 50\<rparr>,
      lp_targetY = Some 30, lp_stopY = Some 60, lp_rightX = Some 80,
      lp_entryPrice = 100, lp_targetPrice = 120, lp_stopPrice = 90,
      lp_lineColor = ''#ffffff'', lp_lineWidth = 1, lp_lineStyle = Solid,
      lp_profitBackgroundColor = ''rgba(0, 150, 136, 0.3)'',
      lp_riskBackgroundColor = ''rgba(239, 83, 80, 0.3)'',
      lp_entryLineColor = ''#ffffff'', lp_externalId = ''lp'',
      lp_chartWidth = 200, lp_chartHeight = 100, lp_selected = selected,
      lp_anchorPointColor = ''#2962ff'',
      lp_labelBackgroundColor = ''rgba(0, 0, 0, 0.75)'', lp_labelTextColor = ''#ffffff'',
      lp_targetLabelBackgroundColor = ''rgb(0, 150, 136)'',
      lp_stopLabelBackgroundColor = ''rgb(239, 83, 80)'',
      lp_direction = direction\<rparr>"

text \<open>The trend line of the spec's example: anchors at \<open>(0, 0)\<close> and \<open>(10, 0)\<close>, extended
  to \<open>(100, 0)\<close> in a chart of 100 by 50 pixels.\<close>

definition tl_example :: "bool \<Rightarrow> TrendLineRendererData" where
  "tl_example selected =
     \<lparr>tl_p1 = \<lparr>pt_x = Some 0, pt_y = Some 0\<rparr>,
      tl_p2 = \<lparr>pt_x = Some 10, pt_y = Some 0\<rparr>,
      tl_extendedStart = \<lparr>pt_x = Some 0, pt_y = Some 0\<rparr>,
      tl_extendedEnd = \<lparr>pt_x = Some 100, pt_y = Some 0\<rparr>,
      tl_text1 = ''price'', tl_text2 = ''price'',
      tl_lineColor = ''#f97316'', tl_lineWidth = 2, tl_lineStyle = Solid, tl_showLabels = False,
      tl_labelBackgroundColor = ''rgba(255, 255, 255, 0.85)'',
      tl_labelTextColor = ''rgb(0, 0, 0)'',
      tl_extendToEdges = True, tl_externalId = ''tl'',
      tl_chartWidth = 100, tl_chartHeight = 50, tl_selected = selected,
      tl_anchorPointColor = ''#2962ff''\<rparr>"

text \<open>A horizontal ray from \<open>(20, 30)\<close> to the right edge of a chart 200 pixels wide.\<close>

definition hr_example :: HorizontalRayRendererData where
  "hr_example =
     \<lparr>hr_anchor = \<lparr>pt_x = Some 20, pt_y = Some 30\<rparr>,
      hr_endPoint = \<lparr>pt_x = Some 200, pt_y = Some 30\<rparr>,
      hr_priceLabel = ''price'',
      hr_lineColor = ''#f97316'', hr_lineWidth = 2, hr_lineStyle = Solid,
      hr_showPriceLabel = True,
      hr_labelBackgroundColor = ''rgba(255, 255, 255, 0.85)'',
      hr_labelTextColor = ''rgb(0, 0, 0)'',
      hr_externalId = ''hr'', hr_chartWidth = 200, hr_chartHeight = 100, hr_selected = True,
      hr_anchorPointColor = ''#2962ff''\<rparr>"

text \<open>A selected rectangle with corners at \<open>(80, 60)\<close> and \<open>(20, 30)\<close>, not extended.\<close>

definition rc_example :: RectangleRendererData where
  "rc_example =
     \<lparr>rc_p1 = \<lparr>pt_x = Some 80, pt_y = Some 60\<rparr>,
      rc_p2 = \<lparr>pt_x = Some 20, pt_y = Some 30\<rparr>,
      rc_drawLeft = 20, rc_drawRight = 80, rc_drawTop = 30, rc_drawBottom = 60,
      rc_lineColor = ''#f97316'', rc_lineWidth = 2, rc_lineStyle = Solid,
      rc_backgroundColor = ''rgba(249, 115, 22, 0.2)'',
      rc_labelText = [], rc_showLabel = False,
      rc_labelBackgroundColor = ''rgba(255, 255, 255, 0.85)'',
      rc_labelTextColor = ''rgb(0, 0, 0)'',
      rc_extendMode = Mode_none, rc_externalId = ''rc'',
      rc_chartWidth = 200, rc_chartHeight = 100, rc_selected = True,
      rc_anchorPointColor = ''#2962ff'', rc_showMiddleLine = False,
      rc_middleLineColor = ''#f97316'', rc_middleLineStyle = Dashed, rc_middleLineWidth = 1\<rparr>"

text \<open>The handle test of the anchor-priority rule: the point \<open>(x, y)\<close> is within the anchor
  hit radius of a handle at a nullable position.\<close>

definition nearHandle :: "real \<Rightarrow> real \<Rightarrow> real option \<Rightarrow> real option \<Rightarrow> bool" where
  "nearHandle x y hx hy =
     (case (hx, hy) of
        (Some a, Some b) \<Rightarrow> sqrt ((x - a) * (x - a) + (y - b) * (y - b)) \<le> ANCHOR_HIT_RADIUS
      | _ \<Rightarrow> False)"

text \<open>A scope with a pixel ratio of 2 on both axes.\<close>

definition example_scope :: BitmapCoordinatesRenderingScope where
  "example_scope =
     \<lparr>horizontalPixelRatio = 2, verticalPixelRatio = 2,
      measureTextWidth = (\<lambda>font text. 7 * real (length text)),
      numberToString = (\<lambda>v. ''22''),
      toFixed2 = (\<lambda>v. ''0.00'')\<rparr>"

text \<open>Three primitives attached to the example host and updated once: a trend line
  through the times 0 and 1 at price 100, background regions with one red bar at time 1,
  and a horizontal line at price 50.\<close>

definition tl_live :: "nat TrendLine" where
  "tl_live =
     TrendLine_updateAllViews
       (attached example_param
          \<lparr>p_chart = None, p_series = None, p_requestUpdate = False, p_updateRequests = 0,
           p_anchors = (\<lparr>time = 0, price = 100\<rparr>, \<lparr>time = 1, price = 100\<rparr>),
           p_options = trendLineOptionsDefaults,
           p_rendererData = None\<rparr>)"

definition br_live :: "nat BackgroundRegions" where
  "br_live =
     BackgroundRegions_updateAllViews
       (attached example_param
          \<lparr>p_chart = None, p_series = None, p_requestUpdate = False, p_updateRequests = 0,
           p_anchors = [\<lparr>brd_time = 1, brd_color = ''red''\<rparr>],
           p_options = \<lparr>bro_externalId = []\<rparr>,
           p_rendererData = None\<rparr>)"

definition hl_live :: "nat HorizontalLine" where
  "hl_live =
     HorizontalLine_updateAllViews
       (attached example_param
          \<lparr>p_chart = None, p_series = None, p_requestUpdate = False, p_updateRequests = 0,
           p_anchors = 50,
           p_options = horizontalLineOptionsDefaults,
           p_rendererData = None\<rparr>)"

text \<open>A position box built by the primitive: attached to the example host, entry at
  time 2 and price 100, target 120, stop 90, six bars wide, with the default options.\<close>

definition longPositionOptionsDefaults :: LongPositionOptions where
  "longPositionOptionsDefaults =
     \<lparr>lpo_lineColor = ''#ffffff'',
      lpo_lineWidth = 1,
      lpo_lineStyle = Solid,
      lpo_profitBackgroundColor = ''rgba(0, 150, 136, 0.3)'',
      lpo_riskBackgroundColor = ''rgba(239, 83, 80, 0.3)'',
      lpo_entryLineColor = ''#ffffff'',
      lpo_externalId = [],
      lpo_selected = False,
      lpo_anchorPointColor = ''#2962ff'',
      lpo_labelBackgroundColor = ''rgba(0, 0, 0, 0.75)'',
      lpo_labelTextColor = ''#ffffff'',
      lpo_targetLabelBackgroundColor = ''rgb(0, 150, 136)'',
      lpo_stopLabelBackgroundColor = ''rgb(239, 83, 80)''\<rparr>"

definition lp_attached :: "nat LongPosition" where
  "lp_attached =
     \<lparr>p_chart = Some example_timeScale, p_series = Some example_series,
      p_requestUpdate = True, p_updateRequests = 1,
      p_anchors = \<lparr>entryTime = 2, entryPrice = 100, targetPrice = 120, stopPrice = 90,
                   widthBars = 6\<rparr>,
      p_options = longPositionOptionsDefaults,
      p_rendererData = None\<rparr>"

text \<open>A scope of pixel ratio 1 whose \<open>toFixed(2)\<close> is right on the numbers of the
  position example.\<close>

definition position_scope :: BitmapCoordinatesRenderingScope where
  "position_scope =
     \<lparr>horizontalPixelRatio = 1, verticalPixelRatio = 1,
      measureTextWidth = (\<lambda>font text. 7 * real (length text)),
      numberToString = (\<lambda>v. ''11''),
      toFixed2 = (\<lambda>v. if v = 20 then ''20.00'' else if v = 10 then ''10.00''
                     else if v = 2 then ''2.00'' else if v = - 20 then ''-20.00''
                     else if v = - 10 then ''-10.00'' else ''0.00'')\<rparr>"

section \<open>Notions used to state the claims\<close>

text \<open>The texts printed by a draw call, in order.\<close>

definition fillTexts :: "CanvasOp list \<Rightarrow> string list" where
  "fillTexts ops = concat (map (\<lambda>op. case op of FillText t x y \<Rightarrow> [t] | _ \<Rightarrow> []) ops)"

text \<open>Regions with given centres, colours and bar widths, and a scope of pixel ratio
  1.\<close>

definition regionAt :: "real \<Rightarrow> string \<Rightarrow> real \<Rightarrow> BackgroundRegionRendererData" where
  "regionAt x color w = \<lparr>br_x = x, br_color = color, br_barWidth = w\<rparr>"

definition unit_scope :: BitmapCoordinatesRenderingScope where
  "unit_scope = example_scope\<lparr>horizontalPixelRatio := 1, verticalPixelRatio := 1\<rparr>"

text \<open>An options object is fully populated when no property holds \<open>undefined\<close>; a
  partial object gives \<open>undefined\<close> when one of its properties is given with that
  value.\<close>

definition populated :: "TrendLineOptionsObject \<Rightarrow> bool" where
  "populated opts =
     (tlj_lineColor opts \<noteq> Undefined
      \<and> tlj_lineWidth opts \<noteq> Undefined
      \<and> tlj_lineStyle opts \<noteq> Undefined
      \<and> tlj_showLabels opts \<noteq> Undefined
      \<and> tlj_labelBackgroundColor opts \<noteq> Undefined
      \<and> tlj_labelTextColor opts \<noteq> Undefined
      \<and> tlj_extendToEdges opts \<noteq> Undefined
      \<and> tlj_externalId opts \<noteq> Undefined
      \<and> tlj_selected opts \<noteq> Undefined
      \<and> tlj_anchorPointColor opts \<noteq> Undefined)"

definition givesUndefined :: "TrendLineOptionsPartial \<Rightarrow> bool" where
  "givesUndefined options =
     (tlp_lineColor options = Some Undefined
      \<or> tlp_lineWidth options = Some Undefined
      \<or> tlp_lineStyle options = Some Undefined
      \<or> tlp_showLabels options = Some Undefined
      \<or> tlp_labelBackgroundColor options = Some Undefined
      \<or> tlp_labelTextColor options = Some Undefined
      \<or> tlp_extendToEdges options = Some Undefined
      \<or> tlp_externalId options = Some Undefined
      \<or> tlp_selected options = Some Undefined
      \<or> tlp_anchorPointColor options = Some Undefined)"

text \<open>A trend line that holds the default options, not attached.\<close>

definition tl_runtime_example :: "nat TrendLineRuntime" where
  "tl_runtime_example =
     \<lparr>p_chart = None, p_series = None, p_requestUpdate = False, p_updateRequests = 0,
      p_anchors = (\<lparr>time = 0, price = 100\<rparr>, \<lparr>time = 1, price = 100\<rparr>),
      p_options = toObject trendLineOptionsDefaults,
      p_rendererData = None\<rparr>"



section \<open>Trend line: extension to the chart edge\<close>








section \<open>Anchor handles before the body\<close>

lemma sqrt_le_numeral_iff:
  "sqrt v \<le> 8 \<longleftrightarrow> v \<le> 64"
  "sqrt v \<le> 6 \<longleftrightarrow> v \<le> 36"
proof -
  have "sqrt 64 = 8" "sqrt 36 = 6"
    by (simp_all add: real_sqrt_unique)
  then show "sqrt v \<le> 8 \<longleftrightarrow> v \<le> 64" "sqrt v \<le> 6 \<longleftrightarrow> v \<le> 36"
    using real_sqrt_le_iff [of v 64] real_sqrt_le_iff [of v 36] by simp_all
qed

lemma nearHandle_Some:
  "nearHandle x y (Some a) (Some b) \<longleftrightarrow> (x - a) * (x - a) + (y - b) * (y - b) \<le> 64"
  by (simp add: nearHandle_def ANCHOR_HIT_RADIUS_def sqrt_le_numeral_iff)

text \<open>
  Claim C2, as the spec states it: for every annotation type, when the snapshot is
  selected, a point within the anchor hit radius of handle \<open>k\<close> returns a hit whose
  identifier is the external id suffixed with \<open>:anchor:k\<close>, the trend line included. The
  trend-line renderer has no anchor test at all: on the selected example line the point
  \<open>(0, 0)\<close>, which is its first anchor, returns the body hit with the plain identifier.
\<close>

theorem anchor_priority_trend_line_counterexample:
  "tl_selected (tl_example True)
   \<and> nearHandle 0 0 (pt_x (tl_p1 (tl_example True))) (pt_y (tl_p1 (tl_example True)))
   \<and> TrendLineRenderer_hitTest (Some (tl_example True)) 0 0 =
       Some \<lparr>cursorStyle = ''pointer'', externalId = ''tl'', zOrder = ''normal''\<rparr>
   \<and> ''tl'' \<noteq> ''tl:anchor:0''"
  by (simp add: tl_example_def nearHandle_Some TrendLineRenderer_hitTest_def TrendLine_segment_def
      distanceToLineSegment_def HIT_TEST_TOLERANCE_def Let_def)

text \<open>
  Claim C2, amended. For the horizontal line, the vertical line, the rectangle and the
  position box, when the snapshot is selected (and the coordinates of the handle are not
  null), \<open>hitTest\<close> tests the anchor handles first, in the order of their indices: a point
  within the anchor hit radius of handle \<open>k\<close>, and of no handle with a smaller index,
  returns the hit whose identifier is the external id followed by \<open>:anchor:\<close> and \<open>k\<close>,
  whatever the body test would answer. The renderers of the trend line and of the
  horizontal ray, and the older revisions of the vertical-line and rectangle renderers,
  have no anchor test: every hit they return carries the plain external id.
\<close>

theorem anchor_priority:
  "(hl_selected hld \<and> hl_y hld = Some lineY
      \<and> nearHandle x y (Some (hl_chartWidth hld - hl_anchorOffsetFromRight hld)) (Some lineY) \<longrightarrow>
    HorizontalLineRenderer_hitTest (Some hld) x y =
      Some \<lparr>cursorStyle = ''grab'', externalId = hl_externalId hld @ '':anchor:0'',
            zOrder = ''normal''\<rparr>)
   \<and> (vl_selected vld \<and> vl_x vld = Some lineX
      \<and> nearHandle x y (Some lineX) (Some (vl_chartHeight vld - vl_anchorOffsetFromBottom vld)) \<longrightarrow>
    VerticalLineRenderer_hitTest (Some vld) x y =
      Some \<lparr>cursorStyle = ''grab'', externalId = vl_externalId vld @ '':anchor:0'',
            zOrder = ''normal''\<rparr>)
   \<and> (rc_selected rcd \<and> nearHandle x y (pt_x (rc_p1 rcd)) (pt_y (rc_p1 rcd)) \<longrightarrow>
    RectangleRenderer_hitTest (Some rcd) x y =
      Some \<lparr>cursorStyle = ''grab'', externalId = rc_externalId rcd @ '':anchor:0'',
            zOrder = ''normal''\<rparr>)
   \<and> (rc_selected rcd \<and> \<not> nearHandle x y (pt_x (rc_p1 rcd)) (pt_y (rc_p1 rcd))
      \<and> nearHandle x y (pt_x (rc_p2 rcd)) (pt_y (rc_p2 rcd)) \<longrightarrow>
    RectangleRenderer_hitTest (Some rcd) x y =
      Some \<lparr>cursorStyle = ''grab'', externalId = rc_externalId rcd @ '':anchor:1'',
            zOrder = ''normal''\<rparr>)
   \<and> (lp_selected lpd \<and> LongPosition_coords lpd = Some (entryX, entryY, targetY, stopY, rightX)
      \<and> nearHandle x y (Some entryX) (Some entryY) \<longrightarrow>
    LongPositionRenderer_hitTest (Some lpd) x y =
      Some \<lparr>cursorStyle = ''grab'', externalId = lp_externalId lpd @ '':anchor:0'',
            zOrder = ''normal''\<rparr>)
   \<and> (lp_selected lpd \<and> LongPosition_coords lpd = Some (entryX, entryY, targetY, stopY, rightX)
      \<and> \<not> nearHandle x y (Some entryX) (Some entryY)
      \<and> nearHandle x y (Some entryX) (Some targetY) \<longrightarrow>
    LongPositionRenderer_hitTest (Some lpd) x y =
      Some \<lparr>cursorStyle = ''ns-resize'', externalId = lp_externalId lpd @ '':anchor:1'',
            zOrder = ''normal''\<rparr>)
   \<and> (lp_selected lpd \<and> LongPosition_coords lpd = Some (entryX, entryY, targetY, stopY, rightX)
      \<and> \<not> nearHandle x y (Some entryX) (Some entryY)
      \<and> \<not> nearHandle x y (Some entryX) (Some targetY)
      \<and> nearHandle x y (Some entryX) (Some stopY) \<longrightarrow>
    LongPositionRenderer_hitTest (Some lpd) x y =
      Some \<lparr>cursorStyle = ''ns-resize'', externalId = lp_externalId lpd @ '':anchor:2'',
            zOrder = ''normal''\<rparr>)
   \<and> (lp_selected lpd \<and> LongPosition_coords lpd = Some (entryX, entryY, targetY, stopY, rightX)
      \<and> \<not> nearHandle x y (Some entryX) (Some entryY)
      \<and> \<not> nearHandle x y (Some entryX) (Some targetY)
      \<and> \<not> nearHandle x y (Some entryX) (Some stopY)
      \<and> nearHandle x y (Some rightX) (Some entryY) \<longrightarrow>
    LongPositionRenderer_hitTest (Some lpd) x y =
      Some \<lparr>cursorStyle = ''ew-resize'', externalId = lp_externalId lpd @ '':anchor:3'',
            zOrder = ''normal''\<rparr>)
   \<and> (TrendLineRenderer_hitTest (Some tld) x y = Some r1 \<longrightarrow>
        r1 = \<lparr>cursorStyle = ''pointer'', externalId = tl_externalId tld, zOrder = ''normal''\<rparr>)
   \<and> (HorizontalRayRenderer_hitTest (Some hrd) x y = Some r2 \<longrightarrow>
        r2 = \<lparr>cursorStyle = ''pointer'', externalId = hr_externalId hrd, zOrder = ''normal''\<rparr>)
   \<and> (VerticalLineRendererV0_hitTest (Some vl0d) x y = Some r3 \<longrightarrow>
        r3 = \<lparr>cursorStyle = ''pointer'', externalId = vl0_externalId vl0d, zOrder = ''normal''\<rparr>)
   \<and> (RectangleRendererV0_hitTest (Some rcd) x y = Some r4 \<longrightarrow>
        r4 = \<lparr>cursorStyle = ''pointer'', externalId = rc_externalId rcd, zOrder = ''normal''\<rparr>)"
proof -
  have f_hl: "hl_selected hld \<and> hl_y hld = Some lineY
      \<and> nearHandle x y (Some (hl_chartWidth hld - hl_anchorOffsetFromRight hld)) (Some lineY) \<longrightarrow>
    HorizontalLineRenderer_hitTest (Some hld) x y =
      Some \<lparr>cursorStyle = ''grab'', externalId = hl_externalId hld @ '':anchor:0'',
            zOrder = ''normal''\<rparr>"
    by (simp add: HorizontalLineRenderer_hitTest_def hitTestAnchorPoint_def nearHandle_def)
  have f_vl: "vl_selected vld \<and> vl_x vld = Some lineX
      \<and> nearHandle x y (Some lineX) (Some (vl_chartHeight vld - vl_anchorOffsetFromBottom vld)) \<longrightarrow>
    VerticalLineRenderer_hitTest (Some vld) x y =
      Some \<lparr>cursorStyle = ''grab'', externalId = vl_externalId vld @ '':anchor:0'',
            zOrder = ''normal''\<rparr>"
    by (simp add: VerticalLineRenderer_hitTest_def hitTestAnchorPoint_def nearHandle_def)
  have f_rc0: "rc_selected rcd \<and> nearHandle x y (pt_x (rc_p1 rcd)) (pt_y (rc_p1 rcd)) \<longrightarrow>
    RectangleRenderer_hitTest (Some rcd) x y =
      Some \<lparr>cursorStyle = ''grab'', externalId = rc_externalId rcd @ '':anchor:0'',
            zOrder = ''normal''\<rparr>"
    by (simp add: RectangleRenderer_hitTest_def Rectangle_hitTestAnchorPoints_def nearHandle_def)
  have f_rc1: "rc_selected rcd \<and> \<not> nearHandle x y (pt_x (rc_p1 rcd)) (pt_y (rc_p1 rcd))
      \<and> nearHandle x y (pt_x (rc_p2 rcd)) (pt_y (rc_p2 rcd)) \<longrightarrow>
    RectangleRenderer_hitTest (Some rcd) x y =
      Some \<lparr>cursorStyle = ''grab'', externalId = rc_externalId rcd @ '':anchor:1'',
            zOrder = ''normal''\<rparr>"
    by (simp add: RectangleRenderer_hitTest_def Rectangle_hitTestAnchorPoints_def nearHandle_def)
  have f_lp: "lp_selected lpd \<and> LongPosition_coords lpd = Some (entryX, entryY, targetY, stopY, rightX) \<longrightarrow>
    LongPositionRenderer_hitTest (Some lpd) x y =
      (if nearHandle x y (Some entryX) (Some entryY)
       then Some \<lparr>cursorStyle = ''grab'', externalId = lp_externalId lpd @ '':anchor:0'',
                  zOrder = ''normal''\<rparr>
       else if nearHandle x y (Some entryX) (Some targetY)
       then Some \<lparr>cursorStyle = ''ns-resize'', externalId = lp_externalId lpd @ '':anchor:1'',
                  zOrder = ''normal''\<rparr>
       else if nearHandle x y (Some entryX) (Some stopY)
       then Some \<lparr>cursorStyle = ''ns-resize'', externalId = lp_externalId lpd @ '':anchor:2'',
                  zOrder = ''normal''\<rparr>
       else if nearHandle x y (Some rightX) (Some entryY)
       then Some \<lparr>cursorStyle = ''ew-resize'', externalId = lp_externalId lpd @ '':anchor:3'',
                  zOrder = ''normal''\<rparr>
       else LongPositionRenderer_hitTest (Some (lpd\<lparr>lp_selected := False\<rparr>)) x y)"
    by (simp add: LongPositionRenderer_hitTest_def LongPosition_hitTestAnchorPoints_def
        nearHandle_def LongPosition_coords_def Let_def)
  have f_tl: "TrendLineRenderer_hitTest (Some tld) x y = Some r1 \<longrightarrow>
        r1 = \<lparr>cursorStyle = ''pointer'', externalId = tl_externalId tld, zOrder = ''normal''\<rparr>"
    by (auto simp add: TrendLineRenderer_hitTest_def Let_def split: option.splits if_splits)
  have f_hr: "HorizontalRayRenderer_hitTest (Some hrd) x y = Some r2 \<longrightarrow>
        r2 = \<lparr>cursorStyle = ''pointer'', externalId = hr_externalId hrd, zOrder = ''normal''\<rparr>"
    by (auto simp add: HorizontalRayRenderer_hitTest_def Let_def split: option.splits if_splits)
  have f_vl0: "VerticalLineRendererV0_hitTest (Some vl0d) x y = Some r3 \<longrightarrow>
        r3 = \<lparr>cursorStyle = ''pointer'', externalId = vl0_externalId vl0d, zOrder = ''normal''\<rparr>"
    by (auto simp add: VerticalLineRendererV0_hitTest_def Let_def split: option.splits if_splits)
  have f_rc: "RectangleRendererV0_hitTest (Some rcd) x y = Some r4 \<longrightarrow>
        r4 = \<lparr>cursorStyle = ''pointer'', externalId = rc_externalId rcd, zOrder = ''normal''\<rparr>"
    by (auto simp add: RectangleRendererV0_hitTest_def Rectangle_hitTestBody_def Let_def
        split: option.splits if_splits)
  show ?thesis
    using f_hl f_vl f_rc0 f_rc1 f_lp f_tl f_hr f_vl0 f_rc by simp
qed

lemma tl_example_hit:
  "TrendLineRenderer_hitTest (Some (tl_example True)) 0 0 =
     Some \<lparr>cursorStyle = ''pointer'', externalId = ''tl'', zOrder = ''normal''\<rparr>"
  by (simp add: tl_example_def TrendLineRenderer_hitTest_def TrendLine_segment_def
      distanceToLineSegment_def HIT_TEST_TOLERANCE_def Let_def)

lemma hr_example_hit:
  "HorizontalRayRenderer_hitTest (Some hr_example) 20 30 =
     Some \<lparr>cursorStyle = ''pointer'', externalId = ''hr'', zOrder = ''normal''\<rparr>"
  by (simp add: hr_example_def HorizontalRayRenderer_hitTest_def
      distanceToLineSegment_def HIT_TEST_TOLERANCE_def Let_def)

lemma vl0_example_hit:
  "VerticalLineRendererV0_hitTest (Some vl0_example) 100 50 =
     Some \<lparr>cursorStyle = ''pointer'', externalId = ''vl'', zOrder = ''normal''\<rparr>"
  by (simp add: vl0_example_def VerticalLineRendererV0_hitTest_def HIT_TEST_TOLERANCE_def)

lemma rc_example_hit_V0:
  "RectangleRendererV0_hitTest (Some rc_example) 80 60 =
     Some \<lparr>cursorStyle = ''pointer'', externalId = ''rc'', zOrder = ''normal''\<rparr>"
  by (simp add: rc_example_def RectangleRendererV0_hitTest_def Rectangle_hitTestBody_def
      isNearHorizontalLine_def isNearVerticalLine_def HIT_TEST_TOLERANCE_def Let_def)

text \<open>The theorem on the selected examples, at each handle. Every point below also lies
  on the body of its annotation.\<close>

theorem anchor_priority_witness:
  "HorizontalLineRenderer_hitTest (Some hl_example_selected) 150 100 =
     Some \<lparr>cursorStyle = ''grab'', externalId = ''hl:anchor:0'', zOrder = ''normal''\<rparr>
   \<and> VerticalLineRenderer_hitTest (Some (vl_example\<lparr>vl_selected := True\<rparr>)) 100 50 =
     Some \<lparr>cursorStyle = ''grab'', externalId = ''vl:anchor:0'', zOrder = ''normal''\<rparr>
   \<and> RectangleRenderer_hitTest (Some rc_example) 80 60 =
     Some \<lparr>cursorStyle = ''grab'', externalId = ''rc:anchor:0'', zOrder = ''normal''\<rparr>
   \<and> RectangleRenderer_hitTest (Some rc_example) 20 30 =
     Some \<lparr>cursorStyle = ''grab'', externalId = ''rc:anchor:1'', zOrder = ''normal''\<rparr>
   \<and> LongPositionRenderer_hitTest (Some (lp_example (Some Long) True)) 20 50 =
     Some \<lparr>cursorStyle = ''grab'', externalId = ''lp:anchor:0'', zOrder = ''normal''\<rparr>
   \<and> LongPositionRenderer_hitTest (Some (lp_example (Some Long) True)) 20 30 =
     Some \<lparr>cursorStyle = ''ns-resize'', externalId = ''lp:anchor:1'', zOrder = ''normal''\<rparr>
   \<and> LongPositionRenderer_hitTest (Some (lp_example (Some Long) True)) 20 60 =
     Some \<lparr>cursorStyle = ''ns-resize'', externalId = ''lp:anchor:2'', zOrder = ''normal''\<rparr>
   \<and> LongPositionRenderer_hitTest (Some (lp_example (Some Long) True)) 80 50 =
     Some \<lparr>cursorStyle = ''ew-resize'', externalId = ''lp:anchor:3'', zOrder = ''normal''\<rparr>
   \<and> TrendLineRenderer_hitTest (Some (tl_example True)) 0 0 =
     Some \<lparr>cursorStyle = ''pointer'', externalId = tl_externalId (tl_example True),
           zOrder = ''normal''\<rparr>
   \<and> HorizontalRayRenderer_hitTest (Some hr_example) 20 30 =
     Some \<lparr>cursorStyle = ''pointer'', externalId = hr_externalId hr_example, zOrder = ''normal''\<rparr>
   \<and> VerticalLineRendererV0_hitTest (Some vl0_example) 100 50 =
     Some \<lparr>cursorStyle = ''pointer'', externalId = vl0_externalId vl0_example,
           zOrder = ''normal''\<rparr>
   \<and> RectangleRendererV0_hitTest (Some rc_example) 80 60 =
     Some \<lparr>cursorStyle = ''pointer'', externalId = rc_externalId rc_example, zOrder = ''normal''\<rparr>"
proof -
  note inst = anchor_priority
    [where hld = hl_example_selected and lineY = 100
       and vld = "vl_example\<lparr>vl_selected := True\<rparr>" and lineX = 100
       and rcd = rc_example and lpd = "lp_example (Some Long) True"
       and entryX = 20 and entryY = 50 and targetY = 30 and stopY = 60 and rightX = 80
       and tld = "tl_example True" and hrd = hr_example and vl0d = vl0_example
       and ?r1.0 = "\<lparr>cursorStyle = ''pointer'', externalId = ''tl'', zOrder = ''normal''\<rparr>"
       and ?r2.0 = "\<lparr>cursorStyle = ''pointer'', externalId = ''hr'', zOrder = ''normal''\<rparr>"
       and ?r3.0 = "\<lparr>cursorStyle = ''pointer'', externalId = ''vl'', zOrder = ''normal''\<rparr>"
       and ?r4.0 = "\<lparr>cursorStyle = ''pointer'', externalId = ''rc'', zOrder = ''normal''\<rparr>"]
  have sel: "hl_selected hl_example_selected" "hl_y hl_example_selected = Some 100"
    "hl_chartWidth hl_example_selected - hl_anchorOffsetFromRight hl_example_selected = 150"
    "hl_externalId hl_example_selected = ''hl''"
    "vl_x vl_example = Some 100" "vl_chartHeight vl_example = 100"
    "vl_anchorOffsetFromBottom vl_example = 50" "vl_externalId vl_example = ''vl''"
    "rc_selected rc_example" "rc_p1 rc_example = \<lparr>pt_x = Some 80, pt_y = Some 60\<rparr>"
    "rc_p2 rc_example = \<lparr>pt_x = Some 20, pt_y = Some 30\<rparr>" "rc_externalId rc_example = ''rc''"
    "lp_selected (lp_example (Some Long) True)"
    "LongPosition_coords (lp_example (Some Long) True) = Some (20, 50, 30, 60, 80)"
    "lp_externalId (lp_example (Some Long) True) = ''lp''"
    "tl_externalId (tl_example True) = ''tl''" "hr_externalId hr_example = ''hr''"
    "vl0_externalId vl0_example = ''vl''"
    by (simp_all add: hl_example_selected_def hl_example_def vl_example_def rc_example_def
        lp_example_def LongPosition_coords_def tl_example_def hr_example_def vl0_example_def)
  show ?thesis
    using inst [where x = 150 and y = 100] inst [where x = 100 and y = 50]
      inst [where x = 80 and y = 60] inst [where x = 20 and y = 30]
      inst [where x = 20 and y = 50] inst [where x = 20 and y = 60]
      inst [where x = 80 and y = 50] inst [where x = 0 and y = 0]
      tl_example_hit hr_example_hit vl0_example_hit rc_example_hit_V0
    by (simp add: sel nearHandle_Some)
qed

section \<open>Position box: deltas and risk/reward\<close>

lemma fillTexts_Nil:
  "fillTexts [] = []"
  by (simp add: fillTexts_def)

lemma fillTexts_Cons:
  "fillTexts (op # ops) = (case op of FillText t x y \<Rightarrow> [t] | _ \<Rightarrow> []) @ fillTexts ops"
  by (simp add: fillTexts_def)

lemma fillTexts_append:
  "fillTexts (a @ b) = fillTexts a @ fillTexts b"
  by (simp add: fillTexts_def)

lemma fillTexts_drawLabel:
  "fillTexts (LongPosition_drawLabel scope text x y backgroundColor textColor verticalAlign) = [text]"
  by (simp add: LongPosition_drawLabel_def fillTexts_def Let_def)

lemma fillTexts_drawAnchorPoint:
  "fillTexts (drawAnchorPoint x y color pixelRatio) = []"
  by (simp add: drawAnchorPoint_def fillTexts_def Let_def)

lemma LongPosition_drawImpl_fillTexts:
  assumes "LongPosition_coords d \<noteq> None"
  shows "fillTexts (LongPositionRenderer_drawImpl (Some d) scope) =
     [''Target: ''
        @ toFixed2 scope
            (Position_targetDelta (lp_direction d) (lp_entryPrice d) (lp_targetPrice d))
        @ '' (''
        @ Position_pctText scope
            (Position_targetDelta (lp_direction d) (lp_entryPrice d) (lp_targetPrice d))
            (lp_entryPrice d)
        @ ''%)'',
      ''Stop: ''
        @ toFixed2 scope (Position_stopDelta (lp_direction d) (lp_entryPrice d) (lp_stopPrice d))
        @ '' (''
        @ Position_pctText scope
            (Position_stopDelta (lp_direction d) (lp_entryPrice d) (lp_stopPrice d))
            (lp_entryPrice d)
        @ ''%)'',
      ''Risk/Reward: ''
        @ toFixed2 scope
            (Position_riskRewardRatio
               (Position_targetDelta (lp_direction d) (lp_entryPrice d) (lp_targetPrice d))
               (Position_stopDelta (lp_direction d) (lp_entryPrice d) (lp_stopPrice d)))]"
proof -
  from assms obtain entryX entryY targetY stopY rightX
    where c: "LongPosition_coords d = Some (entryX, entryY, targetY, stopY, rightX)"
    by (cases "LongPosition_coords d") auto
  show ?thesis
    by (simp add: LongPositionRenderer_drawImpl_def c Let_def fillTexts_append fillTexts_Cons
        fillTexts_Nil fillTexts_drawLabel fillTexts_drawAnchorPoint)
qed

lemma position_scope_toFixed2:
  "toFixed2 position_scope 20 = ''20.00''"
  "toFixed2 position_scope 10 = ''10.00''"
  "toFixed2 position_scope 2 = ''2.00''"
  "toFixed2 position_scope (- 20) = ''-20.00''"
  "toFixed2 position_scope (- 10) = ''-10.00''"
  by (simp_all add: position_scope_def)

lemma lp_attached_snapshot:
  "LongPosition_calculateRendererData lp_attached =
     Some ((lp_example None False)
             \<lparr>lp_entry := \<lparr>pt_x = Some 20, pt_y = Some 0\<rparr>, lp_targetY := Some (- 20),
              lp_stopY := Some 10, lp_externalId := []\<rparr>)"
  by (simp add: LongPosition_calculateRendererData_def lp_attached_def example_timeScale_def
      example_series_def longPositionOptionsDefaults_def lp_example_def Let_def)

text \<open>
  Claim C3. The draw call of the position renderer computes the two deltas and the
  risk/reward ratio and prints them: on a snapshot whose coordinates are all present its
  texts are, in order, the target label, the stop label and the risk/reward label, built
  from \<open>targetDelta\<close>, \<open>stopDelta\<close>, their percentages of the entry and the ratio. For entry
  100, target 120 and stop 90 the renderer computes, with direction \<open>long\<close>,
  \<open>targetDelta = target - entry = 20\<close>, \<open>stopDelta = entry - stop = 10\<close> (20 and 10 percent
  of the entry) and a risk/reward ratio of 2; with direction \<open>short\<close> the deltas are
  negated, \<open>-20\<close> and \<open>-10\<close>, and the ratio is still 2. For all prices the short deltas are
  the negated long deltas and the ratio is the same after negating both deltas; the ratio
  is 0 when \<open>stopDelta\<close> is exactly 0. A snapshot without a direction is treated as
  \<open>short\<close>, and the snapshot that the primitive of this repository builds has none.
\<close>

theorem position_sign_convention:
  "(LongPosition_coords d \<noteq> None \<longrightarrow>
      fillTexts (LongPositionRenderer_drawImpl (Some d) scope) =
        [''Target: ''
           @ toFixed2 scope
               (Position_targetDelta (lp_direction d) (lp_entryPrice d) (lp_targetPrice d))
           @ '' (''
           @ Position_pctText scope
               (Position_targetDelta (lp_direction d) (lp_entryPrice d) (lp_targetPrice d))
               (lp_entryPrice d)
           @ ''%)'',
         ''Stop: ''
           @ toFixed2 scope
               (Position_stopDelta (lp_direction d) (lp_entryPrice d) (lp_stopPrice d))
           @ '' (''
           @ Position_pctText scope
               (Position_stopDelta (lp_direction d) (lp_entryPrice d) (lp_stopPrice d))
               (lp_entryPrice d)
           @ ''%)'',
         ''Risk/Reward: ''
           @ toFixed2 scope
               (Position_riskRewardRatio
                  (Position_targetDelta (lp_direction d) (lp_entryPrice d) (lp_targetPrice d))
                  (Position_stopDelta (lp_direction d) (lp_entryPrice d) (lp_stopPrice d)))])
   \<and> fillTexts (LongPositionRenderer_drawImpl (Some (lp_example (Some Long) sel)) scope) =
       [''Target: '' @ toFixed2 scope 20 @ '' ('' @ toFixed2 scope 20 @ ''%)'',
        ''Stop: '' @ toFixed2 scope 10 @ '' ('' @ toFixed2 scope 10 @ ''%)'',
        ''Risk/Reward: '' @ toFixed2 scope 2]
   \<and> fillTexts (LongPositionRenderer_drawImpl (Some (lp_example (Some Short) sel)) scope) =
       [''Target: '' @ toFixed2 scope (- 20) @ '' ('' @ toFixed2 scope (- 20) @ ''%)'',
        ''Stop: '' @ toFixed2 scope (- 10) @ '' ('' @ toFixed2 scope (- 10) @ ''%)'',
        ''Risk/Reward: '' @ toFixed2 scope 2]
   \<and> fillTexts
         (LongPositionRenderer_drawImpl
            (Some ((lp_example (Some Long) sel)\<lparr>lp_stopPrice := 100\<rparr>)) scope) =
       [''Target: '' @ toFixed2 scope 20 @ '' ('' @ toFixed2 scope 20 @ ''%)'',
        ''Stop: '' @ toFixed2 scope 0 @ '' ('' @ toFixed2 scope 0 @ ''%)'',
        ''Risk/Reward: '' @ toFixed2 scope 0]
   \<and> Position_targetDelta (Some Long) 100 120 = 20
   \<and> Position_stopDelta (Some Long) 100 90 = 10
   \<and> Position_riskRewardRatio (Position_targetDelta (Some Long) 100 120)
        (Position_stopDelta (Some Long) 100 90) = 2
   \<and> Position_pct (Position_targetDelta (Some Long) 100 120) 100 = Some 20
   \<and> Position_pct (Position_stopDelta (Some Long) 100 90) 100 = Some 10
   \<and> Position_targetDelta (Some Short) 100 120 = - 20
   \<and> Position_stopDelta (Some Short) 100 90 = - 10
   \<and> Position_riskRewardRatio (Position_targetDelta (Some Short) 100 120)
        (Position_stopDelta (Some Short) 100 90) = 2
   \<and> Position_targetDelta (Some Short) entry target = - Position_targetDelta (Some Long) entry target
   \<and> Position_stopDelta (Some Short) entry stop = - Position_stopDelta (Some Long) entry stop
   \<and> Position_riskRewardRatio (- targetDelta) (- stopDelta) =
       Position_riskRewardRatio targetDelta stopDelta
   \<and> Position_riskRewardRatio targetDelta 0 = 0
   \<and> Position_targetDelta None entry target = Position_targetDelta (Some Short) entry target
   \<and> Position_stopDelta None entry stop = Position_stopDelta (Some Short) entry stop
   \<and> (LongPosition_calculateRendererData st = Some snapshot \<longrightarrow> lp_direction snapshot = None)"
proof -
  have coords: "LongPosition_coords (lp_example dir sel) \<noteq> None"
    "LongPosition_coords ((lp_example dir sel)\<lparr>lp_stopPrice := 100\<rparr>) \<noteq> None" for dir
    by (simp_all add: lp_example_def LongPosition_coords_def)
  have general: "LongPosition_coords d \<noteq> None \<longrightarrow>
      fillTexts (LongPositionRenderer_drawImpl (Some d) scope) =
        [''Target: ''
           @ toFixed2 scope
               (Position_targetDelta (lp_direction d) (lp_entryPrice d) (lp_targetPrice d))
           @ '' (''
           @ Position_pctText scope
               (Position_targetDelta (lp_direction d) (lp_entryPrice d) (lp_targetPrice d))
               (lp_entryPrice d)
           @ ''%)'',
         ''Stop: ''
           @ toFixed2 scope
               (Position_stopDelta (lp_direction d) (lp_entryPrice d) (lp_stopPrice d))
           @ '' (''
           @ Position_pctText scope
               (Position_stopDelta (lp_direction d) (lp_entryPrice d) (lp_stopPrice d))
               (lp_entryPrice d)
           @ ''%)'',
         ''Risk/Reward: ''
           @ toFixed2 scope
               (Position_riskRewardRatio
                  (Position_targetDelta (lp_direction d) (lp_entryPrice d) (lp_targetPrice d))
                  (Position_stopDelta (lp_direction d) (lp_entryPrice d) (lp_stopPrice d)))]"
    using LongPosition_drawImpl_fillTexts [of d scope] by blast
  have long: "fillTexts (LongPositionRenderer_drawImpl (Some (lp_example (Some Long) sel)) scope) =
       [''Target: '' @ toFixed2 scope 20 @ '' ('' @ toFixed2 scope 20 @ ''%)'',
        ''Stop: '' @ toFixed2 scope 10 @ '' ('' @ toFixed2 scope 10 @ ''%)'',
        ''Risk/Reward: '' @ toFixed2 scope 2]"
    unfolding LongPosition_drawImpl_fillTexts [OF coords(1)]
    by (simp add: lp_example_def Position_targetDelta_def Position_stopDelta_def
        Position_riskRewardRatio_def Position_pctText_def Position_pct_def)
  have short: "fillTexts (LongPositionRenderer_drawImpl (Some (lp_example (Some Short) sel)) scope) =
       [''Target: '' @ toFixed2 scope (- 20) @ '' ('' @ toFixed2 scope (- 20) @ ''%)'',
        ''Stop: '' @ toFixed2 scope (- 10) @ '' ('' @ toFixed2 scope (- 10) @ ''%)'',
        ''Risk/Reward: '' @ toFixed2 scope 2]"
    unfolding LongPosition_drawImpl_fillTexts [OF coords(1)]
    by (simp add: lp_example_def Position_targetDelta_def Position_stopDelta_def
        Position_riskRewardRatio_def Position_pctText_def Position_pct_def)
  have zero: "fillTexts
         (LongPositionRenderer_drawImpl
            (Some ((lp_example (Some Long) sel)\<lparr>lp_stopPrice := 100\<rparr>)) scope) =
       [''Target: '' @ toFixed2 scope 20 @ '' ('' @ toFixed2 scope 20 @ ''%)'',
        ''Stop: '' @ toFixed2 scope 0 @ '' ('' @ toFixed2 scope 0 @ ''%)'',
        ''Risk/Reward: '' @ toFixed2 scope 0]"
    unfolding LongPosition_drawImpl_fillTexts [OF coords(2)]
    by (simp add: lp_example_def Position_targetDelta_def Position_stopDelta_def
        Position_riskRewardRatio_def Position_pctText_def Position_pct_def)
  have numbers: "Position_targetDelta (Some Long) 100 120 = 20
   \<and> Position_stopDelta (Some Long) 100 90 = 10
   \<and> Position_riskRewardRatio (Position_targetDelta (Some Long) 100 120)
        (Position_stopDelta (Some Long) 100 90) = 2
   \<and> Position_pct (Position_targetDelta (Some Long) 100 120) 100 = Some 20
   \<and> Position_pct (Position_stopDelta (Some Long) 100 90) 100 = Some 10
   \<and> Position_targetDelta (Some Short) 100 120 = - 20
   \<and> Position_stopDelta (Some Short) 100 90 = - 10
   \<and> Position_riskRewardRatio (Position_targetDelta (Some Short) 100 120)
        (Position_stopDelta (Some Short) 100 90) = 2
   \<and> Position_targetDelta (Some Short) entry target = - Position_targetDelta (Some Long) entry target
   \<and> Position_stopDelta (Some Short) entry stop = - Position_stopDelta (Some Long) entry stop
   \<and> Position_riskRewardRatio (- targetDelta) (- stopDelta) =
       Position_riskRewardRatio targetDelta stopDelta
   \<and> Position_riskRewardRatio targetDelta 0 = 0
   \<and> Position_targetDelta None entry target = Position_targetDelta (Some Short) entry target
   \<and> Position_stopDelta None entry stop = Position_stopDelta (Some Short) entry stop"
    by (simp add: Position_targetDelta_def Position_stopDelta_def Position_riskRewardRatio_def
        Position_pct_def)
  have primitive: "LongPosition_calculateRendererData st = Some snapshot \<longrightarrow>
      lp_direction snapshot = None"
    by (auto simp add: LongPosition_calculateRendererData_def Let_def
        split: option.splits prod.splits)
  show ?thesis
    using general long short zero numbers primitive by blast
qed

text \<open>The theorem on the example snapshot in direction \<open>long\<close>, drawn with a scope whose
  \<open>toFixed(2)\<close> prints the numbers of the example, and on the position box that the
  primitive builds from the same prices: its snapshot has no direction, and its labels
  carry the deltas of the \<open>short\<close> reading.\<close>

theorem position_sign_convention_witness:
  "LongPosition_coords (lp_example (Some Long) True) \<noteq> None
   \<and> fillTexts (LongPositionRenderer_drawImpl (Some (lp_example (Some Long) True)) position_scope) =
       [''Target: 20.00 (20.00%)'', ''Stop: 10.00 (10.00%)'', ''Risk/Reward: 2.00'']
   \<and> LongPosition_calculateRendererData lp_attached \<noteq> None
   \<and> map_option lp_direction (LongPosition_calculateRendererData lp_attached) = Some None
   \<and> fillTexts
         (LongPositionRenderer_drawImpl (LongPosition_calculateRendererData lp_attached)
            position_scope) =
       [''Target: -20.00 (-20.00%)'', ''Stop: -10.00 (-10.00%)'', ''Risk/Reward: 2.00'']"
proof -
  let ?snapshot = "(lp_example None False)
                     \<lparr>lp_entry := \<lparr>pt_x = Some 20, pt_y = Some 0\<rparr>, lp_targetY := Some (- 20),
                      lp_stopY := Some 10, lp_externalId := []\<rparr>"
  have c1: "LongPosition_coords (lp_example (Some Long) True) \<noteq> None"
    by (simp add: lp_example_def LongPosition_coords_def)
  have c2: "LongPosition_coords ?snapshot \<noteq> None"
    by (simp add: lp_example_def LongPosition_coords_def)
  have fields: "lp_direction ?snapshot = None" "lp_entryPrice ?snapshot = 100"
    "lp_targetPrice ?snapshot = 120" "lp_stopPrice ?snapshot = 90"
    by (simp_all add: lp_example_def)
  have long: "fillTexts
                (LongPositionRenderer_drawImpl (Some (lp_example (Some Long) True)) position_scope) =
       [''Target: 20.00 (20.00%)'', ''Stop: 10.00 (10.00%)'', ''Risk/Reward: 2.00'']"
    using position_sign_convention
            [of "lp_example (Some Long) True" position_scope True 100 120 90 20 10 lp_attached
               ?snapshot]
    by (simp add: position_scope_toFixed2)
  have built: "fillTexts (LongPositionRenderer_drawImpl (Some ?snapshot) position_scope) =
       [''Target: -20.00 (-20.00%)'', ''Stop: -10.00 (-10.00%)'', ''Risk/Reward: 2.00'']"
    using position_sign_convention
            [of ?snapshot position_scope True 100 120 90 20 10 lp_attached ?snapshot] c2
    by (simp add: fields position_scope_toFixed2 Position_targetDelta_def Position_stopDelta_def
        Position_riskRewardRatio_def Position_pctText_def Position_pct_def)
  have none: "lp_direction ?snapshot = None"
    using position_sign_convention
            [of ?snapshot position_scope True 100 120 90 20 10 lp_attached ?snapshot]
    by (simp add: lp_attached_snapshot)
  show ?thesis
    using c1 long built none by (simp add: lp_attached_snapshot)
qed

section \<open>Rectangle: drawing bounds\<close>

text \<open>
  Claim C4. For a rectangle whose corners map to the x-coordinates 20 and 80 (in either
  order) in a chart 200 pixels wide, the snapshot has \<open>drawLeft = 0, drawRight = 80\<close> in mode
  \<open>left\<close>, \<open>drawLeft = 20, drawRight = 200\<close> in mode \<open>right\<close>, \<open>0\<close> and \<open>200\<close> in mode \<open>both\<close>,
  \<open>20\<close> and \<open>80\<close> in mode \<open>none\<close>; in every mode \<open>drawTop\<close> and \<open>drawBottom\<close> are the minimum and
  the maximum of the corners' y-coordinates.
\<close>

theorem rectangle_extend_modes:
  assumes "p_chart st = Some timeScale" and "p_series st = Some series"
    and "timeToCoordinate timeScale (time (fst (p_anchors st))) = Some xa"
    and "timeToCoordinate timeScale (time (snd (p_anchors st))) = Some xb"
    and "(xa = 20 \<and> xb = 80) \<or> (xa = 80 \<and> xb = 20)"
    and "priceToCoordinate series (price (fst (p_anchors st))) = Some ya"
    and "priceToCoordinate series (price (snd (p_anchors st))) = Some yb"
    and "timeScaleWidth timeScale = 200"
  shows "\<exists>d. Rectangle_calculateRendererData st = Some d
           \<and> rc_drawLeft d = (case rco_extendMode (p_options st) of
                                Mode_left \<Rightarrow> 0 | Mode_right \<Rightarrow> 20
                              | Mode_both \<Rightarrow> 0 | Mode_none \<Rightarrow> 20)
           \<and> rc_drawRight d = (case rco_extendMode (p_options st) of
                                 Mode_left \<Rightarrow> 80 | Mode_right \<Rightarrow> 200
                               | Mode_both \<Rightarrow> 200 | Mode_none \<Rightarrow> 80)
           \<and> rc_drawTop d = min ya yb
           \<and> rc_drawBottom d = max ya yb"
  using assms
  by (auto simp add: Rectangle_calculateRendererData_def Let_def split: RectangleExtendMode.splits)

lemma rect_example_host:
  "p_chart (rect_example m) = Some example_timeScale"
  "p_series (rect_example m) = Some example_series"
  "timeToCoordinate example_timeScale (time (fst (p_anchors (rect_example m)))) = Some 80"
  "timeToCoordinate example_timeScale (time (snd (p_anchors (rect_example m)))) = Some 20"
  "priceToCoordinate example_series (price (fst (p_anchors (rect_example m)))) = Some 60"
  "priceToCoordinate example_series (price (snd (p_anchors (rect_example m)))) = Some 30"
  "timeScaleWidth example_timeScale = 200"
  "rco_extendMode (p_options (rect_example m)) = m"
  by (simp_all add: rect_example_def example_timeScale_def example_series_def)

text \<open>The theorem on the example rectangle, whose corners are at pixels \<open>(80, 60)\<close> and
  \<open>(20, 30)\<close>, in each of the four modes.\<close>

theorem rectangle_extend_modes_witness:
  "(\<exists>d. Rectangle_calculateRendererData (rect_example Mode_left) = Some d
        \<and> rc_drawLeft d = 0 \<and> rc_drawRight d = 80 \<and> rc_drawTop d = 30 \<and> rc_drawBottom d = 60)
   \<and> (\<exists>d. Rectangle_calculateRendererData (rect_example Mode_right) = Some d
        \<and> rc_drawLeft d = 20 \<and> rc_drawRight d = 200 \<and> rc_drawTop d = 30 \<and> rc_drawBottom d = 60)
   \<and> (\<exists>d. Rectangle_calculateRendererData (rect_example Mode_both) = Some d
        \<and> rc_drawLeft d = 0 \<and> rc_drawRight d = 200 \<and> rc_drawTop d = 30 \<and> rc_drawBottom d = 60)
   \<and> (\<exists>d. Rectangle_calculateRendererData (rect_example Mode_none) = Some d
        \<and> rc_drawLeft d = 20 \<and> rc_drawRight d = 80 \<and> rc_drawTop d = 30 \<and> rc_drawBottom d = 60)"
  using rectangle_extend_modes [OF rect_example_host(1-4) _ rect_example_host(5-7), of Mode_left]
    rectangle_extend_modes [OF rect_example_host(1-4) _ rect_example_host(5-7), of Mode_right]
    rectangle_extend_modes [OF rect_example_host(1-4) _ rect_example_host(5-7), of Mode_both]
    rectangle_extend_modes [OF rect_example_host(1-4) _ rect_example_host(5-7), of Mode_none]
  by (simp add: rect_example_host(8))

section \<open>Background regions: batching\<close>

lemma Math_round_of_int: "Math_round (of_int n) = of_int n"
proof -
  have "\<lfloor>of_int n + (1 / 2 :: real)\<rfloor> = n"
    by (rule floor_unique) simp_all
  then show ?thesis by (simp add: Math_round_def)
qed

lemma Math_round_numeral: "Math_round (numeral n) = numeral n" "Math_round 0 = 0"
  using Math_round_of_int [of "numeral n"] Math_round_of_int [of 0] by simp_all

lemma Math_round_fracs:
  "Math_round (1 / 4) = 0" "Math_round (3 / 4) = 1" "Math_round (5 / 4) = 1"
  "Math_round (7 / 4) = 2"
  unfolding Math_round_def by (simp_all add: floor_eq_iff)

text \<open>
  Claim C5. The batching pass merges consecutive regions of one colour whose gap is at
  most half a bar width into a single fill and does not bridge a run interrupted by a
  differently coloured or missing bar. On the examples of the claim the draw call does
  so: at pixel ratio 1 the regions at \<open>x = 10, 20, 30\<close> of bar width 10 and one colour are
  painted by one fill spanning \<open>[5, 35]\<close>; with the middle region in another colour the
  run is split, the first colour being painted by the two fills \<open>[5, 15]\<close> and \<open>[25, 35]\<close>
  around the fill \<open>[15, 25]\<close> of the other colour; and with the middle region missing the
  regions at 10 and 30 are painted by two fills. With bars half a pixel wide the draw
  call breaks the rule: the regions at \<open>x = 0.5\<close> and \<open>x = 1.5\<close>, whose neighbour at
  \<open>x = 1.0\<close> is missing, have the rounded edges \<open>[0, 1]\<close> and \<open>[1, 2]\<close>, pass the adjacency
  test \<open>1 \<le> 1 + 0.25\<close> and are painted by the single fill \<open>[0, 2]\<close>, across the gap. Every
  number in these four draw calls is a multiple of a quarter, so the arithmetic is exact.
\<close>

theorem batching_bridges_missing_bar:
  "BackgroundRegionsRenderer_drawImpl exact
     (Some \<lparr>brs_regions = [regionAt 10 ''A'' 10, regionAt 20 ''A'' 10, regionAt 30 ''A'' 10],
            brs_chartHeight = 50\<rparr>) unit_scope =
   [SetFillStyle ''A'', FillRect 5 0 30 50]
   \<and> BackgroundRegionsRenderer_drawImpl exact
       (Some \<lparr>brs_regions = [regionAt 10 ''A'' 10, regionAt 20 ''B'' 10, regionAt 30 ''A'' 10],
              brs_chartHeight = 50\<rparr>) unit_scope =
     [SetFillStyle ''A'', FillRect 5 0 10 50, SetFillStyle ''B'', FillRect 15 0 10 50,
      SetFillStyle ''A'', FillRect 25 0 10 50]
   \<and> BackgroundRegionsRenderer_drawImpl exact
       (Some \<lparr>brs_regions = [regionAt 10 ''A'' 10, regionAt 30 ''A'' 10],
              brs_chartHeight = 50\<rparr>) unit_scope =
     [SetFillStyle ''A'', FillRect 5 0 10 50, SetFillStyle ''A'', FillRect 25 0 10 50]
   \<and> BackgroundRegionsRenderer_drawImpl exact
       (Some \<lparr>brs_regions = [regionAt (1 / 2) ''A'' (1 / 2), regionAt (3 / 2) ''A'' (1 / 2)],
              brs_chartHeight = 50\<rparr>) unit_scope =
     [SetFillStyle ''A'', FillRect 0 0 2 50]"
  by (simp add: BackgroundRegionsRenderer_drawImpl_def unit_scope_def regionAt_def exact_def
      isAdjacent_def region_leftX_def region_rightX_def drawBatch_def Math_round_fracs
      Math_round_numeral)

section \<open>Null propagation in the renderers\<close>







section \<open>Detach and reattach\<close>

lemma attached_detached: "attached param (detached st) = attached param st"
  by (simp add: attached_def detached_def requestUpdate_def)

lemma getLogicalIndex_detached: "getLogicalIndex (detached st) t = None"
  by (simp add: getLogicalIndex_def detached_def)

lemma calculateRendererData_detached:
  "TrendLine_calculateRendererData (detached tls) = None"
  "Rectangle_calculateRendererData (detached rcs) = None"
  "HorizontalLine_calculateRendererData (detached hls) = None"
  "HorizontalRay_calculateRendererData (detached hrs) = None"
  "VerticalLine_calculateRendererData formatTimeLabel (detached vls) = None"
  "LongPosition_calculateRendererData (detached lps) = None"
  "BackgroundRegions_calculateRendererData (detached brs) =
     \<lparr>brs_regions = [], brs_chartHeight = 0\<rparr>"
  by (simp_all add: detached_def TrendLine_calculateRendererData_def
      Rectangle_calculateRendererData_def HorizontalLine_calculateRendererData_def
      HorizontalRay_calculateRendererData_def VerticalLine_calculateRendererData_def
      LongPosition_calculateRendererData_def BackgroundRegions_calculateRendererData_def)

lemma updateAllViews_detached:
  "TrendLine_updateAllViews (detached tls) = detached tls"
  "Rectangle_updateAllViews (detached rcs) = detached rcs"
  "HorizontalLine_updateAllViews (detached hls) = detached hls"
  "HorizontalRay_updateAllViews (detached hrs) = detached hrs"
  "VerticalLine_updateAllViews formatTimeLabel (detached vls) = detached vls"
  "LongPosition_updateAllViews (detached lps) = detached lps"
  by (simp_all add: TrendLine_updateAllViews_def Rectangle_updateAllViews_def
      HorizontalLine_updateAllViews_def HorizontalRay_updateAllViews_def
      VerticalLine_updateAllViews_def LongPosition_updateAllViews_def updateAllViews_def
      calculateRendererData_detached)

lemma rendererData_detached: "p_rendererData (detached st) = p_rendererData st"
  by (simp add: detached_def)

lemma br_live_snapshot:
  "p_rendererData br_live =
     Some \<lparr>brs_regions = [\<lparr>br_x = 10, br_color = ''red'', br_barWidth = 10\<rparr>],
           brs_chartHeight = 100\<rparr>"
  by (simp add: br_live_def BackgroundRegions_updateAllViews_def attached_def requestUpdate_def
      BackgroundRegions_calculateRendererData_def example_param_def example_timeScale_def
      example_series_def)

lemma tl_live_snapshot:
  "p_rendererData tl_live =
     Some ((tl_example False)
             \<lparr>tl_extendedEnd := \<lparr>pt_x = Some 200, pt_y = Some 0\<rparr>,
              tl_chartWidth := 200, tl_chartHeight := 100, tl_externalId := []\<rparr>)"
  by (simp add: tl_live_def TrendLine_updateAllViews_def updateAllViews_def attached_def
      requestUpdate_def TrendLine_calculateRendererData_def example_param_def
      example_timeScale_def example_series_def calculateExtendedLine_def Let_def
      exact_def
      trendLineOptionsDefaults_def tl_example_def)

text \<open>
  Claim C7, as the spec states it: for every annotation type, after \<open>detached()\<close> the call
  \<open>updateAllViews()\<close> does not mutate the renderer's last good snapshot, and hit test and
  autoscale report no result. Three parts fail. The detached background regions replace
  their snapshot of one region by the empty snapshot. The detached trend line still
  answers a hit on its line, from the snapshot its renderer kept. The detached horizontal
  line still reports its price to the autoscale.
\<close>

theorem detach_counterexample:
  "p_rendererData br_live =
     Some \<lparr>brs_regions = [\<lparr>br_x = 10, br_color = ''red'', br_barWidth = 10\<rparr>],
           brs_chartHeight = 100\<rparr>
   \<and> p_rendererData (BackgroundRegions_updateAllViews (detached br_live)) =
       Some \<lparr>brs_regions = [], brs_chartHeight = 0\<rparr>
   \<and> TrendLine_hitTest (TrendLine_updateAllViews (detached tl_live)) 50 0 =
       Some \<lparr>cursorStyle = ''pointer'', externalId = [], zOrder = ''normal''\<rparr>
   \<and> HorizontalLine_autoscaleInfo (HorizontalLine_updateAllViews (detached hl_live)) 0 10 =
       Some \<lparr>minValue = 50, maxValue = 50\<rparr>"
proof -
  have "TrendLine_hitTest (TrendLine_updateAllViews (detached tl_live)) 50 0 =
       Some \<lparr>cursorStyle = ''pointer'', externalId = [], zOrder = ''normal''\<rparr>"
    by (simp add: updateAllViews_detached TrendLine_hitTest_def rendererData_detached
        tl_live_snapshot TrendLineRenderer_hitTest_def TrendLine_segment_def tl_example_def
        distanceToLineSegment_def HIT_TEST_TOLERANCE_def Let_def)
  moreover have "HorizontalLine_autoscaleInfo (HorizontalLine_updateAllViews (detached hl_live)) 0 10 =
       Some \<lparr>minValue = 50, maxValue = 50\<rparr>"
    by (simp add: updateAllViews_detached HorizontalLine_autoscaleInfo_def detached_def
        hl_live_def HorizontalLine_updateAllViews_def updateAllViews_def attached_def
        requestUpdate_def split: option.splits)
  ultimately show ?thesis
    by (simp add: br_live_snapshot BackgroundRegions_updateAllViews_def
        calculateRendererData_detached)
qed

text \<open>
  Claim C7, amended. After \<open>detached()\<close>, \<open>updateAllViews()\<close> raises nothing (every read of
  the host is behind the null test) and, for the trend line, the rectangle, the horizontal
  line, the horizontal ray, the vertical line and the position box, leaves the primitive
  and the renderer's cached snapshot as they were; for the background regions it replaces
  the snapshot by the empty one. \<open>hitTest\<close> keeps answering from the cached snapshot: it is
  the renderer's answer on the snapshot held before the detach (the background regions
  never hit). \<open>autoscaleInfo\<close> reports no result for the trend line, the rectangle, the
  horizontal ray and the position box (and, attached or not, for the vertical line), while
  the horizontal line keeps reporting its price. \<open>attached()\<close> again followed by
  \<open>updateAllViews()\<close> gives the state of a primitive that was attached to that host without
  ever being detached: the snapshot is the live geometry for the trend line, the horizontal
  line, the horizontal ray, the vertical line and the background regions, and for the
  rectangle and the position box whenever their coordinates are mappable (their previous
  snapshot stays otherwise).
\<close>

theorem detach_reattach:
  "TrendLine_updateAllViews (detached tls) = detached tls
   \<and> Rectangle_updateAllViews (detached rcs) = detached rcs
   \<and> HorizontalLine_updateAllViews (detached hls) = detached hls
   \<and> HorizontalRay_updateAllViews (detached hrs) = detached hrs
   \<and> VerticalLine_updateAllViews formatTimeLabel (detached vls) = detached vls
   \<and> LongPosition_updateAllViews (detached lps) = detached lps
   \<and> p_rendererData (TrendLine_updateAllViews (detached tls)) = p_rendererData tls
   \<and> p_rendererData (Rectangle_updateAllViews (detached rcs)) = p_rendererData rcs
   \<and> p_rendererData (HorizontalLine_updateAllViews (detached hls)) = p_rendererData hls
   \<and> p_rendererData (HorizontalRay_updateAllViews (detached hrs)) = p_rendererData hrs
   \<and> p_rendererData (VerticalLine_updateAllViews formatTimeLabel (detached vls)) =
       p_rendererData vls
   \<and> p_rendererData (LongPosition_updateAllViews (detached lps)) = p_rendererData lps
   \<and> p_rendererData (BackgroundRegions_updateAllViews (detached brs)) =
       Some \<lparr>brs_regions = [], brs_chartHeight = 0\<rparr>
   \<and> TrendLine_hitTest (TrendLine_updateAllViews (detached tls)) x y =
       TrendLineRenderer_hitTest (p_rendererData tls) x y
   \<and> Rectangle_hitTest (Rectangle_updateAllViews (detached rcs)) x y =
       RectangleRenderer_hitTest (p_rendererData rcs) x y
   \<and> HorizontalLine_hitTest (HorizontalLine_updateAllViews (detached hls)) x y =
       HorizontalLineRenderer_hitTest (p_rendererData hls) x y
   \<and> HorizontalRay_hitTest (HorizontalRay_updateAllViews (detached hrs)) x y =
       HorizontalRayRenderer_hitTest (p_rendererData hrs) x y
   \<and> VerticalLine_hitTest (VerticalLine_updateAllViews formatTimeLabel (detached vls)) x y =
       VerticalLineRendererV0_hitTest (p_rendererData vls) x y
   \<and> LongPosition_hitTest (LongPosition_updateAllViews (detached lps)) x y =
       LongPositionRenderer_hitTest (p_rendererData lps) x y
   \<and> BackgroundRegions_hitTest (BackgroundRegions_updateAllViews (detached brs)) = None
   \<and> TrendLine_autoscaleInfo (detached tls) startTimePoint endTimePoint = None
   \<and> Rectangle_autoscaleInfo (detached rcs) startTimePoint endTimePoint = None
   \<and> HorizontalRay_autoscaleInfo (detached hrs) startTimePoint endTimePoint = None
   \<and> LongPosition_autoscaleInfo (detached lps) startTimePoint endTimePoint = None
   \<and> VerticalLine_autoscaleInfo (detached vls) startTimePoint endTimePoint = None
   \<and> HorizontalLine_autoscaleInfo (detached hls) startTimePoint endTimePoint =
       Some \<lparr>minValue = p_anchors hls, maxValue = p_anchors hls\<rparr>
   \<and> TrendLine_updateAllViews (attached param (TrendLine_updateAllViews (detached tls))) =
       TrendLine_updateAllViews (attached param tls)
   \<and> Rectangle_updateAllViews (attached param (Rectangle_updateAllViews (detached rcs))) =
       Rectangle_updateAllViews (attached param rcs)
   \<and> HorizontalLine_updateAllViews (attached param (HorizontalLine_updateAllViews (detached hls))) =
       HorizontalLine_updateAllViews (attached param hls)
   \<and> HorizontalRay_updateAllViews (attached param (HorizontalRay_updateAllViews (detached hrs))) =
       HorizontalRay_updateAllViews (attached param hrs)
   \<and> VerticalLine_updateAllViews formatTimeLabel
         (attached param (VerticalLine_updateAllViews formatTimeLabel (detached vls))) =
       VerticalLine_updateAllViews formatTimeLabel (attached param vls)
   \<and> LongPosition_updateAllViews (attached param (LongPosition_updateAllViews (detached lps))) =
       LongPosition_updateAllViews (attached param lps)
   \<and> p_rendererData
         (BackgroundRegions_updateAllViews
            (attached param (BackgroundRegions_updateAllViews (detached brs)))) =
       p_rendererData (BackgroundRegions_updateAllViews (attached param brs))
   \<and> TrendLine_calculateRendererData (attached param tls) \<noteq> None
   \<and> p_rendererData (TrendLine_updateAllViews (attached param tls)) =
       TrendLine_calculateRendererData (attached param tls)
   \<and> HorizontalLine_calculateRendererData (attached param hls) \<noteq> None
   \<and> p_rendererData (HorizontalLine_updateAllViews (attached param hls)) =
       HorizontalLine_calculateRendererData (attached param hls)
   \<and> HorizontalRay_calculateRendererData (attached param hrs) \<noteq> None
   \<and> p_rendererData (HorizontalRay_updateAllViews (attached param hrs)) =
       HorizontalRay_calculateRendererData (attached param hrs)
   \<and> VerticalLine_calculateRendererData formatTimeLabel (attached param vls) \<noteq> None
   \<and> p_rendererData (VerticalLine_updateAllViews formatTimeLabel (attached param vls)) =
       VerticalLine_calculateRendererData formatTimeLabel (attached param vls)
   \<and> p_rendererData (BackgroundRegions_updateAllViews (attached param brs)) =
       Some (BackgroundRegions_calculateRendererData (attached param brs))
   \<and> p_rendererData (Rectangle_updateAllViews (attached param rcs)) =
       (case Rectangle_calculateRendererData (attached param rcs) of
          Some live \<Rightarrow> Some live
        | None \<Rightarrow> p_rendererData rcs)
   \<and> p_rendererData (LongPosition_updateAllViews (attached param lps)) =
       (case LongPosition_calculateRendererData (attached param lps) of
          Some live \<Rightarrow> Some live
        | None \<Rightarrow> p_rendererData lps)"
proof -
  have auto_none:
    "TrendLine_autoscaleInfo (detached tls) startTimePoint endTimePoint = None"
    "Rectangle_autoscaleInfo (detached rcs) startTimePoint endTimePoint = None"
    "HorizontalRay_autoscaleInfo (detached hrs) startTimePoint endTimePoint = None"
    "LongPosition_autoscaleInfo (detached lps) startTimePoint endTimePoint = None"
    "VerticalLine_autoscaleInfo (detached vls) startTimePoint endTimePoint = None"
    "HorizontalLine_autoscaleInfo (detached hls) startTimePoint endTimePoint =
       Some \<lparr>minValue = p_anchors hls, maxValue = p_anchors hls\<rparr>"
    by (simp_all add: TrendLine_autoscaleInfo_def Rectangle_autoscaleInfo_def
        twoPoint_autoscaleInfo_def HorizontalRay_autoscaleInfo_def
        LongPosition_autoscaleInfo_def VerticalLine_autoscaleInfo_def
        HorizontalLine_autoscaleInfo_def getLogicalIndex_detached, simp add: detached_def)
  have hit:
    "TrendLine_hitTest (detached tls) x y = TrendLineRenderer_hitTest (p_rendererData tls) x y"
    "Rectangle_hitTest (detached rcs) x y = RectangleRenderer_hitTest (p_rendererData rcs) x y"
    "HorizontalLine_hitTest (detached hls) x y =
       HorizontalLineRenderer_hitTest (p_rendererData hls) x y"
    "HorizontalRay_hitTest (detached hrs) x y =
       HorizontalRayRenderer_hitTest (p_rendererData hrs) x y"
    "VerticalLine_hitTest (detached vls) x y =
       VerticalLineRendererV0_hitTest (p_rendererData vls) x y"
    "LongPosition_hitTest (detached lps) x y =
       LongPositionRenderer_hitTest (p_rendererData lps) x y"
    by (simp_all add: TrendLine_hitTest_def Rectangle_hitTest_def HorizontalLine_hitTest_def
        HorizontalRay_hitTest_def VerticalLine_hitTest_def LongPosition_hitTest_def
        rendererData_detached)
  have br:
    "p_rendererData (BackgroundRegions_updateAllViews (detached brs)) =
       Some \<lparr>brs_regions = [], brs_chartHeight = 0\<rparr>"
    "p_rendererData
         (BackgroundRegions_updateAllViews
            (attached param (BackgroundRegions_updateAllViews (detached brs)))) =
       p_rendererData (BackgroundRegions_updateAllViews (attached param brs))"
    "p_rendererData (BackgroundRegions_updateAllViews (attached param brs)) =
       Some (BackgroundRegions_calculateRendererData (attached param brs))"
    by (simp_all add: BackgroundRegions_updateAllViews_def calculateRendererData_detached
        BackgroundRegions_calculateRendererData_def attached_def detached_def requestUpdate_def)
  have live:
    "TrendLine_calculateRendererData (attached param tls) \<noteq> None"
    "HorizontalLine_calculateRendererData (attached param hls) \<noteq> None"
    "HorizontalRay_calculateRendererData (attached param hrs) \<noteq> None"
    "VerticalLine_calculateRendererData formatTimeLabel (attached param vls) \<noteq> None"
    by (simp_all add: TrendLine_calculateRendererData_def HorizontalLine_calculateRendererData_def
        HorizontalRay_calculateRendererData_def VerticalLine_calculateRendererData_def
        attached_def requestUpdate_def Let_def)
  have upd: "p_rendererData (updateAllViews calc st) =
       (case calc st of Some live \<Rightarrow> Some live | None \<Rightarrow> p_rendererData st)" for calc st
    by (simp add: updateAllViews_def split: option.splits)
  have snap:
    "p_rendererData (TrendLine_updateAllViews (attached param tls)) =
       TrendLine_calculateRendererData (attached param tls)"
    "p_rendererData (HorizontalLine_updateAllViews (attached param hls)) =
       HorizontalLine_calculateRendererData (attached param hls)"
    "p_rendererData (HorizontalRay_updateAllViews (attached param hrs)) =
       HorizontalRay_calculateRendererData (attached param hrs)"
    "p_rendererData (VerticalLine_updateAllViews formatTimeLabel (attached param vls)) =
       VerticalLine_calculateRendererData formatTimeLabel (attached param vls)"
    "p_rendererData (Rectangle_updateAllViews (attached param rcs)) =
       (case Rectangle_calculateRendererData (attached param rcs) of
          Some live \<Rightarrow> Some live
        | None \<Rightarrow> p_rendererData rcs)"
    "p_rendererData (LongPosition_updateAllViews (attached param lps)) =
       (case LongPosition_calculateRendererData (attached param lps) of
          Some live \<Rightarrow> Some live
        | None \<Rightarrow> p_rendererData lps)"
    using live
    by (auto simp add: upd TrendLine_updateAllViews_def HorizontalLine_updateAllViews_def
        HorizontalRay_updateAllViews_def VerticalLine_updateAllViews_def
        Rectangle_updateAllViews_def LongPosition_updateAllViews_def attached_def
        requestUpdate_def split: option.splits)
  show ?thesis
    by (simp add: updateAllViews_detached rendererData_detached attached_detached auto_none
        hit br live snap BackgroundRegions_hitTest_def)
qed

section \<open>Options merge\<close>

lemma mergeOptionsWithDefaults_spread_asPartial:
  "mergeOptionsWithDefaults (spread (asPartial opts) p) =
     \<lparr>tlj_lineColor = (case tlp_lineColor p of Some v \<Rightarrow> v | None \<Rightarrow> tlj_lineColor opts),
      tlj_lineWidth = (case tlp_lineWidth p of Some v \<Rightarrow> v | None \<Rightarrow> tlj_lineWidth opts),
      tlj_lineStyle = (case tlp_lineStyle p of Some v \<Rightarrow> v | None \<Rightarrow> tlj_lineStyle opts),
      tlj_showLabels = (case tlp_showLabels p of Some v \<Rightarrow> v | None \<Rightarrow> tlj_showLabels opts),
      tlj_labelBackgroundColor = (case tlp_labelBackgroundColor p of Some v \<Rightarrow> v | None \<Rightarrow> tlj_labelBackgroundColor opts),
      tlj_labelTextColor = (case tlp_labelTextColor p of Some v \<Rightarrow> v | None \<Rightarrow> tlj_labelTextColor opts),
      tlj_extendToEdges = (case tlp_extendToEdges p of Some v \<Rightarrow> v | None \<Rightarrow> tlj_extendToEdges opts),
      tlj_externalId = (case tlp_externalId p of Some v \<Rightarrow> v | None \<Rightarrow> tlj_externalId opts),
      tlj_selected = (case tlp_selected p of Some v \<Rightarrow> v | None \<Rightarrow> tlj_selected opts),
      tlj_anchorPointColor = (case tlp_anchorPointColor p of Some v \<Rightarrow> v | None \<Rightarrow> tlj_anchorPointColor opts)\<rparr>"
  by (simp add: mergeOptionsWithDefaults_def spread_def asPartial_def override_def
      getProperty_def Let_def split: option.splits)

lemma TrendLine_options_applyOptions:
  "TrendLine_options (TrendLine_applyOptions p st) =
     mergeOptionsWithDefaults (spread (asPartial (TrendLine_options st)) p)"
  by (simp add: TrendLine_options_def TrendLine_applyOptions_def requestUpdate_def)

lemma tl_runtime_example_options:
  "TrendLine_options tl_runtime_example = toObject trendLineOptionsDefaults"
  by (simp add: tl_runtime_example_def TrendLine_options_def)

text \<open>
  Claim C8, as the spec states it, fails for a partial object that gives a property the
  value \<open>undefined\<close>: after \<open>applyOptions({ lineColor: undefined })\<close> on a trend line with
  the default options, \<open>options().lineColor\<close> is \<open>undefined\<close>, so the result is not fully
  populated, although the options were before the call.
\<close>

theorem options_merge_counterexample:
  "populated (TrendLine_options tl_runtime_example)
   \<and> tlj_lineColor
        (TrendLine_options
           (TrendLine_applyOptions (emptyPartial\<lparr>tlp_lineColor := Some Undefined\<rparr>)
              tl_runtime_example)) = Undefined
   \<and> \<not> populated
          (TrendLine_options
             (TrendLine_applyOptions (emptyPartial\<lparr>tlp_lineColor := Some Undefined\<rparr>)
                tl_runtime_example))"
  by (simp add: TrendLine_options_applyOptions mergeOptionsWithDefaults_spread_asPartial
      tl_runtime_example_options populated_def emptyPartial_def toObject_def)

text \<open>
  Claim C8, amended. For every partial options object \<open>p\<close>, \<open>applyOptions(p)\<close> followed by
  \<open>options()\<close> yields an object in which every property that \<open>p\<close> does not specify has its
  prior value and every property that \<open>p\<close> specifies has the value \<open>p\<close> gives it, which is
  \<open>undefined\<close> where \<open>p\<close> gives \<open>undefined\<close>. The object is fully populated when the prior
  options were and \<open>p\<close> gives no property the value \<open>undefined\<close>, and it is not fully
  populated when \<open>p\<close> does. Applying an empty partial leaves the options unchanged, and
  applying the same partial twice gives what applying it once gives.
\<close>

theorem options_merge:
  "tlj_lineColor (TrendLine_options (TrendLine_applyOptions p st)) =
       (case tlp_lineColor p of Some v \<Rightarrow> v | None \<Rightarrow> tlj_lineColor (TrendLine_options st))
   \<and> tlj_lineWidth (TrendLine_options (TrendLine_applyOptions p st)) =
       (case tlp_lineWidth p of Some v \<Rightarrow> v | None \<Rightarrow> tlj_lineWidth (TrendLine_options st))
   \<and> tlj_lineStyle (TrendLine_options (TrendLine_applyOptions p st)) =
       (case tlp_lineStyle p of Some v \<Rightarrow> v | None \<Rightarrow> tlj_lineStyle (TrendLine_options st))
   \<and> tlj_showLabels (TrendLine_options (TrendLine_applyOptions p st)) =
       (case tlp_showLabels p of Some v \<Rightarrow> v | None \<Rightarrow> tlj_showLabels (TrendLine_options st))
   \<and> tlj_labelBackgroundColor (TrendLine_options (TrendLine_applyOptions p st)) =
       (case tlp_labelBackgroundColor p of Some v \<Rightarrow> v | None \<Rightarrow> tlj_labelBackgroundColor (TrendLine_options st))
   \<and> tlj_labelTextColor (TrendLine_options (TrendLine_applyOptions p st)) =
       (case tlp_labelTextColor p of Some v \<Rightarrow> v | None \<Rightarrow> tlj_labelTextColor (TrendLine_options st))
   \<and> tlj_extendToEdges (TrendLine_options (TrendLine_applyOptions p st)) =
       (case tlp_extendToEdges p of Some v \<Rightarrow> v | None \<Rightarrow> tlj_extendToEdges (TrendLine_options st))
   \<and> tlj_externalId (TrendLine_options (TrendLine_applyOptions p st)) =
       (case tlp_externalId p of Some v \<Rightarrow> v | None \<Rightarrow> tlj_externalId (TrendLine_options st))
   \<and> tlj_selected (TrendLine_options (TrendLine_applyOptions p st)) =
       (case tlp_selected p of Some v \<Rightarrow> v | None \<Rightarrow> tlj_selected (TrendLine_options st))
   \<and> tlj_anchorPointColor (TrendLine_options (TrendLine_applyOptions p st)) =
       (case tlp_anchorPointColor p of Some v \<Rightarrow> v | None \<Rightarrow> tlj_anchorPointColor (TrendLine_options st))
   \<and> TrendLine_options (TrendLine_applyOptions emptyPartial st) = TrendLine_options st
   \<and> TrendLine_options (TrendLine_applyOptions p (TrendLine_applyOptions p st)) =
       TrendLine_options (TrendLine_applyOptions p st)
   \<and> (populated (TrendLine_options st) \<and> \<not> givesUndefined p \<longrightarrow>
        populated (TrendLine_options (TrendLine_applyOptions p st)))
   \<and> (givesUndefined p \<longrightarrow> \<not> populated (TrendLine_options (TrendLine_applyOptions p st)))"
proof -
  have fields: "TrendLine_options (TrendLine_applyOptions q s) =
     \<lparr>tlj_lineColor = (case tlp_lineColor q of Some v \<Rightarrow> v
                       | None \<Rightarrow> tlj_lineColor (TrendLine_options s)),
      tlj_lineWidth = (case tlp_lineWidth q of Some v \<Rightarrow> v
                       | None \<Rightarrow> tlj_lineWidth (TrendLine_options s)),
      tlj_lineStyle = (case tlp_lineStyle q of Some v \<Rightarrow> v
                       | None \<Rightarrow> tlj_lineStyle (TrendLine_options s)),
      tlj_showLabels = (case tlp_showLabels q of Some v \<Rightarrow> v
                       | None \<Rightarrow> tlj_showLabels (TrendLine_options s)),
      tlj_labelBackgroundColor = (case tlp_labelBackgroundColor q of Some v \<Rightarrow> v
                       | None \<Rightarrow> tlj_labelBackgroundColor (TrendLine_options s)),
      tlj_labelTextColor = (case tlp_labelTextColor q of Some v \<Rightarrow> v
                       | None \<Rightarrow> tlj_labelTextColor (TrendLine_options s)),
      tlj_extendToEdges = (case tlp_extendToEdges q of Some v \<Rightarrow> v
                       | None \<Rightarrow> tlj_extendToEdges (TrendLine_options s)),
      tlj_externalId = (case tlp_externalId q of Some v \<Rightarrow> v
                       | None \<Rightarrow> tlj_externalId (TrendLine_options s)),
      tlj_selected = (case tlp_selected q of Some v \<Rightarrow> v
                       | None \<Rightarrow> tlj_selected (TrendLine_options s)),
      tlj_anchorPointColor = (case tlp_anchorPointColor q of Some v \<Rightarrow> v
                       | None \<Rightarrow> tlj_anchorPointColor (TrendLine_options s))\<rparr>"
    for q and s :: "'a TrendLineRuntime"
    by (simp add: TrendLine_options_applyOptions mergeOptionsWithDefaults_spread_asPartial)
  have each: "tlj_lineColor (TrendLine_options (TrendLine_applyOptions p st)) =
       (case tlp_lineColor p of Some v \<Rightarrow> v | None \<Rightarrow> tlj_lineColor (TrendLine_options st))
   \<and> tlj_lineWidth (TrendLine_options (TrendLine_applyOptions p st)) =
       (case tlp_lineWidth p of Some v \<Rightarrow> v | None \<Rightarrow> tlj_lineWidth (TrendLine_options st))
   \<and> tlj_lineStyle (TrendLine_options (TrendLine_applyOptions p st)) =
       (case tlp_lineStyle p of Some v \<Rightarrow> v | None \<Rightarrow> tlj_lineStyle (TrendLine_options st))
   \<and> tlj_showLabels (TrendLine_options (TrendLine_applyOptions p st)) =
       (case tlp_showLabels p of Some v \<Rightarrow> v | None \<Rightarrow> tlj_showLabels (TrendLine_options st))
   \<and> tlj_labelBackgroundColor (TrendLine_options (TrendLine_applyOptions p st)) =
       (case tlp_labelBackgroundColor p of Some v \<Rightarrow> v | None \<Rightarrow> tlj_labelBackgroundColor (TrendLine_options st))
   \<and> tlj_labelTextColor (TrendLine_options (TrendLine_applyOptions p st)) =
       (case tlp_labelTextColor p of Some v \<Rightarrow> v | None \<Rightarrow> tlj_labelTextColor (TrendLine_options st))
   \<and> tlj_extendToEdges (TrendLine_options (TrendLine_applyOptions p st)) =
       (case tlp_extendToEdges p of Some v \<Rightarrow> v | None \<Rightarrow> tlj_extendToEdges (TrendLine_options st))
   \<and> tlj_externalId (TrendLine_options (TrendLine_applyOptions p st)) =
       (case tlp_externalId p of Some v \<Rightarrow> v | None \<Rightarrow> tlj_externalId (TrendLine_options st))
   \<and> tlj_selected (TrendLine_options (TrendLine_applyOptions p st)) =
       (case tlp_selected p of Some v \<Rightarrow> v | None \<Rightarrow> tlj_selected (TrendLine_options st))
   \<and> tlj_anchorPointColor (TrendLine_options (TrendLine_applyOptions p st)) =
       (case tlp_anchorPointColor p of Some v \<Rightarrow> v | None \<Rightarrow> tlj_anchorPointColor (TrendLine_options st))"
    by (simp add: fields)
  have empty: "TrendLine_options (TrendLine_applyOptions emptyPartial st) = TrendLine_options st"
    by (simp add: fields emptyPartial_def)
  have twice: "TrendLine_options (TrendLine_applyOptions p (TrendLine_applyOptions p st)) =
       TrendLine_options (TrendLine_applyOptions p st)"
    by (simp add: fields split: option.splits)
  have full: "populated (TrendLine_options st) \<and> \<not> givesUndefined p \<longrightarrow>
        populated (TrendLine_options (TrendLine_applyOptions p st))"
    by (simp add: fields populated_def givesUndefined_def split: option.splits)
  have undef: "givesUndefined p \<longrightarrow>
        \<not> populated (TrendLine_options (TrendLine_applyOptions p st))"
    by (auto simp add: fields populated_def givesUndefined_def)
  show ?thesis
    using each empty twice full undef by blast
qed

text \<open>The theorem on the trend line with the default options and the partial
  \<open>{ lineWidth: 3 }\<close>, and on the partial of the counterexample.\<close>

theorem options_merge_witness:
  "populated (TrendLine_options tl_runtime_example)
   \<and> \<not> givesUndefined (emptyPartial\<lparr>tlp_lineWidth := Some (Defined 3)\<rparr>)
   \<and> tlj_lineWidth
        (TrendLine_options
           (TrendLine_applyOptions (emptyPartial\<lparr>tlp_lineWidth := Some (Defined 3)\<rparr>)
              tl_runtime_example)) = Defined 3
   \<and> tlj_lineColor
        (TrendLine_options
           (TrendLine_applyOptions (emptyPartial\<lparr>tlp_lineWidth := Some (Defined 3)\<rparr>)
              tl_runtime_example)) = Defined ''#f97316''
   \<and> populated
        (TrendLine_options
           (TrendLine_applyOptions (emptyPartial\<lparr>tlp_lineWidth := Some (Defined 3)\<rparr>)
              tl_runtime_example))
   \<and> givesUndefined (emptyPartial\<lparr>tlp_lineColor := Some Undefined\<rparr>)
   \<and> \<not> populated
          (TrendLine_options
             (TrendLine_applyOptions (emptyPartial\<lparr>tlp_lineColor := Some Undefined\<rparr>)
                tl_runtime_example))"
proof -
  have p0: "populated (TrendLine_options tl_runtime_example)"
    by (simp add: populated_def tl_runtime_example_options toObject_def)
  have g1: "\<not> givesUndefined (emptyPartial\<lparr>tlp_lineWidth := Some (Defined 3)\<rparr>)"
    by (simp add: givesUndefined_def emptyPartial_def)
  have g2: "givesUndefined (emptyPartial\<lparr>tlp_lineColor := Some Undefined\<rparr>)"
    by (simp add: givesUndefined_def emptyPartial_def)
  have color: "tlj_lineColor (TrendLine_options tl_runtime_example) = Defined ''#f97316''"
    by (simp add: tl_runtime_example_options toObject_def trendLineOptionsDefaults_def)
  have none: "tlp_lineColor (emptyPartial\<lparr>tlp_lineWidth := Some (Defined 3)\<rparr>) = None"
    "tlp_lineWidth (emptyPartial\<lparr>tlp_lineWidth := Some (Defined 3)\<rparr>) = Some (Defined 3)"
    by (simp_all add: emptyPartial_def)
  show ?thesis
    using options_merge [of "emptyPartial\<lparr>tlp_lineWidth := Some (Defined 3)\<rparr>" tl_runtime_example]
      options_merge [of "emptyPartial\<lparr>tlp_lineColor := Some Undefined\<rparr>" tl_runtime_example]
      p0 g1 g2 color none
    by simp
qed

section \<open>Line hit tests\<close>

text \<open>
  Claim C9, as the spec states it: for a horizontal line whose snapshot \<open>y\<close> is 100, with
  the tolerance of 6 pixels, \<open>hitTest(x, 106)\<close> is a hit and \<open>hitTest(x, 106.01)\<close> is no
  hit, for any \<open>x\<close> within the chart width. The second half fails on a selected line: the
  anchor handle is tested first, with a radius of 8 pixels. In a chart 200 pixels wide the
  handle of the selected line is at \<open>(150, 100)\<close>, and the point \<open>(150, 106.01)\<close>, within the
  chart width, hits it.
\<close>

theorem tolerance_boundary_selected_counterexample:
  "hl_y hl_example_selected = Some 100
   \<and> (0::real) \<le> 150 \<and> 150 \<le> hl_chartWidth hl_example_selected
   \<and> HorizontalLineRenderer_hitTest (Some hl_example_selected) 150 (10601 / 100) =
       Some \<lparr>cursorStyle = ''grab'', externalId = ''hl:anchor:0'', zOrder = ''normal''\<rparr>"
proof -
  have "sqrt ((10601 / 100 - 100) * (10601 / 100 - 100)) \<le> (8::real)"
    by (rule real_le_lsqrt) simp_all
  then show ?thesis
    by (simp add: HorizontalLineRenderer_hitTest_def hl_example_selected_def hl_example_def
        hitTestAnchorPoint_def ANCHOR_HIT_RADIUS_def)
qed

text \<open>
  Claim C9, amended. For a horizontal line whose snapshot \<open>y\<close> is 100, \<open>hitTest(x, 106)\<close> is
  a hit for every \<open>x\<close>. When the line is not selected (the default), that hit is the line's
  own and \<open>hitTest(x, 106.01)\<close> is no hit, for every \<open>x\<close>. When the line is selected,
  \<open>hitTest(x, 106.01)\<close> is the answer of the anchor-handle test alone: the handle's hit for
  the points within 8 pixels of the handle, no hit elsewhere.
\<close>

theorem tolerance_boundary:
  "hl_y d = Some 100 \<longrightarrow>
     HorizontalLineRenderer_hitTest (Some d) x 106 \<noteq> None
     \<and> (\<not> hl_selected d \<longrightarrow>
          HorizontalLineRenderer_hitTest (Some d) x 106 =
            Some \<lparr>cursorStyle = ''pointer'', externalId = hl_externalId d, zOrder = ''normal''\<rparr>
          \<and> HorizontalLineRenderer_hitTest (Some d) x (10601 / 100) = None)
     \<and> (hl_selected d \<longrightarrow>
          HorizontalLineRenderer_hitTest (Some d) x (10601 / 100) =
            hitTestAnchorPoint x (10601 / 100) (hl_chartWidth d - hl_anchorOffsetFromRight d) 100
              (hl_externalId d))"
  by (auto simp add: HorizontalLineRenderer_hitTest_def HIT_TEST_TOLERANCE_def
      split: option.splits)

theorem tolerance_boundary_witness:
  "hl_y hl_example = Some 100 \<and> \<not> hl_selected hl_example
   \<and> HorizontalLineRenderer_hitTest (Some hl_example) 150 106 =
       Some \<lparr>cursorStyle = ''pointer'', externalId = ''hl'', zOrder = ''normal''\<rparr>
   \<and> HorizontalLineRenderer_hitTest (Some hl_example) 150 (10601 / 100) = None
   \<and> hl_y hl_example_selected = Some 100 \<and> hl_selected hl_example_selected
   \<and> HorizontalLineRenderer_hitTest (Some hl_example_selected) 150 106 \<noteq> None
   \<and> HorizontalLineRenderer_hitTest (Some hl_example_selected) 150 (10601 / 100) =
       hitTestAnchorPoint 150 (10601 / 100) 150 100 ''hl''"
  using tolerance_boundary [of hl_example 150] tolerance_boundary [of hl_example_selected 150]
  by (simp add: hl_example_def hl_example_selected_def)

text \<open>
  Claim C10. The hit tests of the horizontal and of the vertical line ignore the coordinate
  parallel to the line. For a horizontal line that is not selected and whose \<open>y\<close> is not
  null, \<open>hitTest(x, y')\<close> is a hit exactly when \<open>|y' - y| \<le> 6\<close>, for every real \<open>x\<close>, also
  outside the chart; the vertical line is a hit exactly when \<open>|x - lineX| \<le> 6\<close>, for every
  real \<open>y\<close>. The vertical line is stated for both revisions of its renderer; the one
  without an anchor handle does not depend on the selection.
\<close>

theorem hit_ignores_parallel_coordinate:
  "(hl_y d = Some lineY \<and> \<not> hl_selected d \<longrightarrow>
      HorizontalLineRenderer_hitTest (Some d) x y' =
        (if \<bar>y' - lineY\<bar> \<le> 6
         then Some \<lparr>cursorStyle = ''pointer'', externalId = hl_externalId d, zOrder = ''normal''\<rparr>
         else None))
   \<and> (vl_x v = Some lineX \<and> \<not> vl_selected v \<longrightarrow>
      VerticalLineRenderer_hitTest (Some v) x' y =
        (if \<bar>x' - lineX\<bar> \<le> 6
         then Some \<lparr>cursorStyle = ''pointer'', externalId = vl_externalId v, zOrder = ''normal''\<rparr>
         else None))
   \<and> (vl0_x w = Some lineX0 \<longrightarrow>
      VerticalLineRendererV0_hitTest (Some w) x' y =
        (if \<bar>x' - lineX0\<bar> \<le> 6
         then Some \<lparr>cursorStyle = ''pointer'', externalId = vl0_externalId w, zOrder = ''normal''\<rparr>
         else None))"
  by (simp add: HorizontalLineRenderer_hitTest_def VerticalLineRenderer_hitTest_def
      VerticalLineRendererV0_hitTest_def HIT_TEST_TOLERANCE_def)

text \<open>The theorem at points far outside the chart, on each side of the tolerance.\<close>

theorem hit_ignores_parallel_coordinate_witness:
  "hl_y hl_example = Some 100 \<and> \<not> hl_selected hl_example
   \<and> HorizontalLineRenderer_hitTest (Some hl_example) (- 500) 106 =
       Some \<lparr>cursorStyle = ''pointer'', externalId = ''hl'', zOrder = ''normal''\<rparr>
   \<and> HorizontalLineRenderer_hitTest (Some hl_example) 1000 107 = None
   \<and> vl_x vl_example = Some 100 \<and> \<not> vl_selected vl_example
   \<and> VerticalLineRenderer_hitTest (Some vl_example) 94 (- 500) =
       Some \<lparr>cursorStyle = ''pointer'', externalId = ''vl'', zOrder = ''normal''\<rparr>
   \<and> VerticalLineRenderer_hitTest (Some vl_example) 93 1000 = None
   \<and> vl0_x vl0_example = Some 100
   \<and> VerticalLineRendererV0_hitTest (Some vl0_example) 94 (- 500) =
       Some \<lparr>cursorStyle = ''pointer'', externalId = ''vl'', zOrder = ''normal''\<rparr>
   \<and> VerticalLineRendererV0_hitTest (Some vl0_example) 93 1000 = None"
  using hit_ignores_parallel_coordinate
          [of hl_example 100 "- 500" 106 vl_example 100 94 "- 500" vl0_example 100]
        hit_ignores_parallel_coordinate
          [of hl_example 100 1000 107 vl_example 100 93 1000 vl0_example 100]
  by (simp add: hl_example_def vl_example_def vl0_example_def)

end
